theory Spec2Isabelle
  imports Main "HOL-Library.Word"
begin

section \<open>luagcrypt: a Lua binding of libgcrypt's ciphers and message digests\<close>

text \<open>
  The development embeds \<^verbatim>\<open>luagcrypt.c\<close>. The C file is glue between two
  libraries it does not contain: libgcrypt (the provider) and the Lua C API (the
  host). Every function of those libraries that the file calls is a field of the
  record \<open>externs\<close> below, so the embedded functions are the C functions with the
  libraries left open, and a theorem about them holds for every provider and host.
\<close>

subsection \<open>C and Lua data\<close>

type_synonym byte = "8 word"
type_synonym bytes = "byte list"
type_synonym ptr = nat
type_synonym c_int = "32 word"
type_synonym gcry_error_t = "32 word"

abbreviation NULL :: ptr where
  "NULL \<equiv> 0"

abbreviation GPG_ERR_NO_ERROR :: gcry_error_t where
  "GPG_ERR_NO_ERROR \<equiv> 0"

text \<open>
  A Lua value as far as the binding can tell values apart: nil, a number (the integral
  ones), a string with its length, and a userdata, named by its index in the state's
  table of userdata blocks.
\<close>

datatype lua_value = LNil | LNumber int | LString bytes | LUserdata nat

text \<open>
  A raised Lua error: an argument error of \<^verbatim>\<open>luaL_check*\<close> (with the argument's
  position), the message of a \<^verbatim>\<open>luaL_error\<close> call, or the host's memory error.
\<close>

datatype lua_error = ArgError nat | RuntimeError string | MemoryError

datatype result = Return "lua_value list" | Raise lua_error

datatype gcry_ctl =
    GCRYCTL_INITIALIZATION_FINISHED_P
  | GCRYCTL_DISABLE_SECMEM
  | GCRYCTL_INITIALIZATION_FINISHED

text \<open>The two userdata structs of the file; a pointer field is \<open>NULL\<close> or an address.\<close>

record LgcryptCipher =
  cipher_h :: ptr
  cipher_out :: ptr

record LgcryptHash =
  hash_h :: ptr

text \<open>
  A userdata block together with its metatable: \<open>Cipher\<close> blocks carry the metatable
  registered as \<^verbatim>\<open>gcrypt.Cipher\<close>, \<open>Hash\<close> blocks the one registered as
  \<^verbatim>\<open>gcrypt.Hash\<close>.
\<close>

datatype userdata = Cipher LgcryptCipher | Hash LgcryptHash

subsection \<open>The calls made to libgcrypt\<close>

text \<open>
  Each call the binding makes to the provider is recorded, in order, with the
  arguments that identify the resource and, for the two calls that hand out a
  resource, the pointer they returned.
\<close>

datatype event =
    Ev_malloc nat ptr
  | Ev_free ptr
  | Ev_cipher_open c_int c_int gcry_error_t ptr
  | Ev_cipher_close ptr
  | Ev_cipher_setkey ptr bytes
  | Ev_cipher_setiv ptr bytes
  | Ev_cipher_reset ptr
  | Ev_cipher_encrypt ptr ptr nat bytes
  | Ev_cipher_decrypt ptr ptr nat bytes
  | Ev_md_open c_int c_int gcry_error_t ptr
  | Ev_md_close ptr
  | Ev_md_setkey ptr bytes
  | Ev_md_reset ptr
  | Ev_md_write ptr bytes
  | Ev_md_get_algo ptr
  | Ev_md_is_enabled ptr c_int
  | Ev_md_get_algo_dlen c_int
  | Ev_md_read ptr c_int
  | Ev_control gcry_ctl
  | Ev_check_version

subsection \<open>The libraries the file is linked against\<close>

text \<open>
  \<open>'e\<close> is the state of everything outside the file: the provider's contexts, the C
  heap, the host's allocator. The fields are the functions of \<^verbatim>\<open>gcrypt.h\<close> that
  the file calls, under their C names, taking and returning that state. The two open
  functions receive the address of the handle field of the new userdata: they are given
  what that slot holds when they are called and return, beside the status, what it holds
  when they return (a provider that does not touch the slot returns what it was given).
  \<open>peek e p i\<close> is the byte at offset \<open>i\<close> of the block \<open>p\<close> points to. The last four fields are the host's: whether
  \<^verbatim>\<open>lua_newuserdata\<close> and \<^verbatim>\<open>lua_pushlstring\<close> find memory (both raise a memory
  error otherwise), and Lua's coercions between strings and numbers.
\<close>

record 'e externs =
  gcry_malloc :: "'e \<Rightarrow> nat \<Rightarrow> ptr \<times> 'e"
  gcry_free :: "'e \<Rightarrow> ptr \<Rightarrow> 'e"
  gcry_cipher_open :: "'e \<Rightarrow> ptr \<Rightarrow> c_int \<Rightarrow> c_int \<Rightarrow> c_int \<Rightarrow> gcry_error_t \<times> ptr \<times> 'e"
  gcry_cipher_close :: "'e \<Rightarrow> ptr \<Rightarrow> 'e"
  gcry_cipher_setkey :: "'e \<Rightarrow> ptr \<Rightarrow> bytes \<Rightarrow> gcry_error_t \<times> 'e"
  gcry_cipher_setiv :: "'e \<Rightarrow> ptr \<Rightarrow> bytes \<Rightarrow> gcry_error_t \<times> 'e"
  gcry_cipher_reset :: "'e \<Rightarrow> ptr \<Rightarrow> gcry_error_t \<times> 'e"
  gcry_cipher_encrypt :: "'e \<Rightarrow> ptr \<Rightarrow> ptr \<Rightarrow> nat \<Rightarrow> bytes \<Rightarrow> gcry_error_t \<times> 'e"
  gcry_cipher_decrypt :: "'e \<Rightarrow> ptr \<Rightarrow> ptr \<Rightarrow> nat \<Rightarrow> bytes \<Rightarrow> gcry_error_t \<times> 'e"
  gcry_md_open :: "'e \<Rightarrow> ptr \<Rightarrow> c_int \<Rightarrow> c_int \<Rightarrow> gcry_error_t \<times> ptr \<times> 'e"
  gcry_md_close :: "'e \<Rightarrow> ptr \<Rightarrow> 'e"
  gcry_md_setkey :: "'e \<Rightarrow> ptr \<Rightarrow> bytes \<Rightarrow> gcry_error_t \<times> 'e"
  gcry_md_reset :: "'e \<Rightarrow> ptr \<Rightarrow> 'e"
  gcry_md_write :: "'e \<Rightarrow> ptr \<Rightarrow> bytes \<Rightarrow> 'e"
  gcry_md_get_algo :: "'e \<Rightarrow> ptr \<Rightarrow> c_int"
  gcry_md_is_enabled :: "'e \<Rightarrow> ptr \<Rightarrow> c_int \<Rightarrow> c_int"
  gcry_md_get_algo_dlen :: "c_int \<Rightarrow> 32 word"
  gcry_md_read :: "'e \<Rightarrow> ptr \<Rightarrow> c_int \<Rightarrow> ptr \<times> 'e"
  gcry_control :: "'e \<Rightarrow> gcry_ctl \<Rightarrow> gcry_error_t \<times> 'e"
  gcry_check_version :: "'e \<Rightarrow> 'e"
  gcry_strerror :: "gcry_error_t \<Rightarrow> string"
  peek :: "'e \<Rightarrow> ptr \<Rightarrow> nat \<Rightarrow> byte"
  lua_newuserdata_ok :: "'e \<Rightarrow> bool"
  lua_pushlstring_ok :: "'e \<Rightarrow> bytes \<Rightarrow> bool"
  lua_str2number :: "bytes \<Rightarrow> int option"
  lua_number2str :: "int \<Rightarrow> bytes"

text \<open>
  The state a C function of the file runs in: the outside world, the userdata blocks
  allocated so far (a block's reference is its index), and the provider calls made.
\<close>

record 'e lua_State =
  env :: 'e
  udata :: "userdata list"
  calls :: "event list"

subsection \<open>The Lua C API as the file uses it\<close>

text \<open>The value at stack index \<open>n\<close> (counted from 1) of a C function's arguments.\<close>

definition stack_at :: "lua_value list \<Rightarrow> nat \<Rightarrow> lua_value option" where
  "stack_at args n = (if 1 \<le> n \<and> n \<le> length args then Some (args ! (n - 1)) else None)"

definition luaL_checkinteger :: "'e externs \<Rightarrow> lua_value list \<Rightarrow> nat \<Rightarrow> lua_error + int" where
  "luaL_checkinteger X args n =
     (case stack_at args n of
        Some (LNumber i) \<Rightarrow> Inr i
      | Some (LString s) \<Rightarrow>
          (case lua_str2number X s of Some i \<Rightarrow> Inr i | None \<Rightarrow> Inl (ArgError n))
      | _ \<Rightarrow> Inl (ArgError n))"

text \<open>\<^verbatim>\<open>#define luaL_checkint(L,n) ((int)luaL_checkinteger(L,n))\<close>: the cast keeps 32 bits.\<close>

definition luaL_checkint :: "'e externs \<Rightarrow> lua_value list \<Rightarrow> nat \<Rightarrow> lua_error + c_int" where
  "luaL_checkint X args n =
     (case luaL_checkinteger X args n of Inl e \<Rightarrow> Inl e | Inr i \<Rightarrow> Inr (of_int i))"

definition luaL_optinteger :: "'e externs \<Rightarrow> lua_value list \<Rightarrow> nat \<Rightarrow> int \<Rightarrow> lua_error + int" where
  "luaL_optinteger X args n d =
     (case stack_at args n of
        None \<Rightarrow> Inr d
      | Some LNil \<Rightarrow> Inr d
      | Some _ \<Rightarrow> luaL_checkinteger X args n)"

definition luaL_checklstring :: "'e externs \<Rightarrow> lua_value list \<Rightarrow> nat \<Rightarrow> lua_error + bytes" where
  "luaL_checklstring X args n =
     (case stack_at args n of
        Some (LString s) \<Rightarrow> Inr s
      | Some (LNumber i) \<Rightarrow> Inr (lua_number2str X i)
      | _ \<Rightarrow> Inl (ArgError n))"

text \<open>
  \<^verbatim>\<open>lua_pushlstring(L, p, n)\<close> copies the \<open>n\<close> bytes at \<open>p\<close> into a new Lua string.
  It is one of the API functions that raise a memory error (the reference manual marks
  it so): when the host cannot allocate the string, the C function that called it is
  left at that point.
\<close>

definition read_bytes :: "'e externs \<Rightarrow> 'e \<Rightarrow> ptr \<Rightarrow> nat \<Rightarrow> bytes" where
  "read_bytes X e p n = map (peek X e p) [0..<n]"

definition lua_pushlstring :: "'e externs \<Rightarrow> 'e lua_State \<Rightarrow> ptr \<Rightarrow> nat \<Rightarrow> lua_value option" where
  "lua_pushlstring X L p n =
     (let s = read_bytes X (env L) p n
      in if lua_pushlstring_ok X (env L) s then Some (LString s) else None)"

definition record_call :: "event \<Rightarrow> 'e lua_State \<Rightarrow> 'e lua_State" where
  "record_call ev L = L\<lparr>calls := calls L @ [ev]\<rparr>"

subsection \<open>Symmetric encryption\<close>

text \<open>
  \<^verbatim>\<open>lgcrypt_cipher_new\<close>: a new userdata with both fields set to \<open>NULL\<close> and the
  \<^verbatim>\<open>gcrypt.Cipher\<close> metatable. The result is the new block: its reference and
  what it holds.
\<close>

definition lgcrypt_cipher_new :: "'e externs \<Rightarrow> 'e lua_State \<Rightarrow> lua_error + (nat \<times> LgcryptCipher \<times> 'e lua_State)" where
  "lgcrypt_cipher_new X L =
     (if lua_newuserdata_ok X (env L)
      then let state = \<lparr>cipher_h = NULL, cipher_out = NULL\<rparr>
           in Inr (length (udata L), state, L\<lparr>udata := udata L @ [Cipher state]\<rparr>)
      else Inl MemoryError)"

definition checkCipher :: "'e lua_State \<Rightarrow> lua_value list \<Rightarrow> nat \<Rightarrow> lua_error + (nat \<times> LgcryptCipher)" where
  "checkCipher L args n =
     (case stack_at args n of
        Some (LUserdata r) \<Rightarrow>
          (if r < length (udata L)
           then (case udata L ! r of Cipher c \<Rightarrow> Inr (r, c) | Hash _ \<Rightarrow> Inl (ArgError n))
           else Inl (ArgError n))
      | _ \<Rightarrow> Inl (ArgError n))"

definition set_cipher :: "nat \<Rightarrow> LgcryptCipher \<Rightarrow> 'e lua_State \<Rightarrow> 'e lua_State" where
  "set_cipher r c L = L\<lparr>udata := (udata L)[r := Cipher c]\<rparr>"

text \<open>
  \<^verbatim>\<open>lgcrypt_cipher_open\<close>: \<^verbatim>\<open>gcry_cipher_open(&state->h, algo, mode, 0)\<close> is handed
  the \<open>h\<close> field of the block \<^verbatim>\<open>lgcrypt_cipher_new\<close> returned; only that field is
  written. \<^verbatim>\<open>lua_pop\<close> takes the userdata off the stack, the block itself stays with
  the collector.
\<close>

definition lgcrypt_cipher_open :: "'e externs \<Rightarrow> 'e lua_State \<Rightarrow> lua_value list \<Rightarrow> result \<times> 'e lua_State" where
  "lgcrypt_cipher_open X L args =
     (case luaL_checkint X args 1 of Inl e \<Rightarrow> (Raise e, L) | Inr algo \<Rightarrow>
     (case luaL_checkint X args 2 of Inl e \<Rightarrow> (Raise e, L) | Inr mode \<Rightarrow>
     (case lgcrypt_cipher_new X L of Inl e \<Rightarrow> (Raise e, L) | Inr (r, state, L1) \<Rightarrow>
        (case gcry_cipher_open X (env L1) (cipher_h state) algo mode 0 of (err, hdl, e') \<Rightarrow>
           let state1 = state\<lparr>cipher_h := hdl\<rparr>;
               L2 = record_call (Ev_cipher_open algo mode err hdl)
                      (set_cipher r state1 (L1\<lparr>env := e'\<rparr>))
           in if err \<noteq> GPG_ERR_NO_ERROR
              then (Raise (RuntimeError (''gcry_cipher_open() failed with '' @ gcry_strerror X err)), L2)
              else (Return [LUserdata r], L2)))))"

definition lgcrypt_cipher___gc :: "'e externs \<Rightarrow> 'e lua_State \<Rightarrow> lua_value list \<Rightarrow> result \<times> 'e lua_State" where
  "lgcrypt_cipher___gc X L args =
     (case checkCipher L args 1 of Inl e \<Rightarrow> (Raise e, L) | Inr (r, state) \<Rightarrow>
        let L1 = (if cipher_h state \<noteq> NULL
                  then record_call (Ev_cipher_close (cipher_h state))
                         (L\<lparr>env := gcry_cipher_close X (env L) (cipher_h state)\<rparr>)
                  else L);
            L2 = (if cipher_out state \<noteq> NULL
                  then record_call (Ev_free (cipher_out state))
                         (L1\<lparr>env := gcry_free X (env L1) (cipher_out state)\<rparr>)
                  else L1)
        in (Return [], L2))"

definition lgcrypt_cipher_setkey :: "'e externs \<Rightarrow> 'e lua_State \<Rightarrow> lua_value list \<Rightarrow> result \<times> 'e lua_State" where
  "lgcrypt_cipher_setkey X L args =
     (case checkCipher L args 1 of Inl e \<Rightarrow> (Raise e, L) | Inr (r, state) \<Rightarrow>
     (case luaL_checklstring X args 2 of Inl e \<Rightarrow> (Raise e, L) | Inr key \<Rightarrow>
        (case gcry_cipher_setkey X (env L) (cipher_h state) key of (err, e') \<Rightarrow>
           let L1 = record_call (Ev_cipher_setkey (cipher_h state) key) (L\<lparr>env := e'\<rparr>)
           in if err \<noteq> GPG_ERR_NO_ERROR
              then (Raise (RuntimeError (''gcry_cipher_setkey() failed with '' @ gcry_strerror X err)), L1)
              else (Return [], L1))))"

definition lgcrypt_cipher_setiv :: "'e externs \<Rightarrow> 'e lua_State \<Rightarrow> lua_value list \<Rightarrow> result \<times> 'e lua_State" where
  "lgcrypt_cipher_setiv X L args =
     (case checkCipher L args 1 of Inl e \<Rightarrow> (Raise e, L) | Inr (r, state) \<Rightarrow>
     (case luaL_checklstring X args 2 of Inl e \<Rightarrow> (Raise e, L) | Inr iv \<Rightarrow>
        (case gcry_cipher_setiv X (env L) (cipher_h state) iv of (err, e') \<Rightarrow>
           let L1 = record_call (Ev_cipher_setiv (cipher_h state) iv) (L\<lparr>env := e'\<rparr>)
           in if err \<noteq> GPG_ERR_NO_ERROR
              then (Raise (RuntimeError (''gcry_cipher_setiv() failed with '' @ gcry_strerror X err)), L1)
              else (Return [], L1))))"

definition lgcrypt_cipher_reset :: "'e externs \<Rightarrow> 'e lua_State \<Rightarrow> lua_value list \<Rightarrow> result \<times> 'e lua_State" where
  "lgcrypt_cipher_reset X L args =
     (case checkCipher L args 1 of Inl e \<Rightarrow> (Raise e, L) | Inr (r, state) \<Rightarrow>
        (case gcry_cipher_reset X (env L) (cipher_h state) of (err, e') \<Rightarrow>
           let L1 = record_call (Ev_cipher_reset (cipher_h state)) (L\<lparr>env := e'\<rparr>)
           in if err \<noteq> GPG_ERR_NO_ERROR
              then (Raise (RuntimeError (''gcry_cipher_reset() failed with '' @ gcry_strerror X err)), L1)
              else (Return [], L1)))"

text \<open>
  \<^verbatim>\<open>lgcrypt_cipher_encrypt\<close>, statement by statement: the allocation is stored in
  the userdata's \<open>out\<close> field before it is tested; after the provider's call either
  branch frees \<open>state->out\<close> and clears the field, the successful one after
  \<^verbatim>\<open>lua_pushlstring\<close> has built the result. When \<^verbatim>\<open>lua_pushlstring\<close> raises, the
  function is left there, with the field still set.
\<close>

definition lgcrypt_cipher_encrypt :: "'e externs \<Rightarrow> 'e lua_State \<Rightarrow> lua_value list \<Rightarrow> result \<times> 'e lua_State" where
  "lgcrypt_cipher_encrypt X L args =
     (case checkCipher L args 1 of Inl e \<Rightarrow> (Raise e, L) | Inr (r, state) \<Rightarrow>
     (case luaL_checklstring X args 2 of Inl e \<Rightarrow> (Raise e, L) | Inr inp \<Rightarrow>
        let in_len = length inp; out_len = in_len
        in (case gcry_malloc X (env L) out_len of (p, e1) \<Rightarrow>
              let state1 = state\<lparr>cipher_out := p\<rparr>;
                  L1 = record_call (Ev_malloc out_len p) (set_cipher r state1 (L\<lparr>env := e1\<rparr>))
              in if cipher_out state1 = NULL
                 then (Raise (RuntimeError ''Failed to allocate memory for ciphertext''), L1)
                 else
                   (case gcry_cipher_encrypt X (env L1) (cipher_h state1) (cipher_out state1) out_len inp of
                      (err, e2) \<Rightarrow>
                        let L2 = record_call
                                   (Ev_cipher_encrypt (cipher_h state1) (cipher_out state1) out_len inp)
                                   (L1\<lparr>env := e2\<rparr>)
                        in if err \<noteq> GPG_ERR_NO_ERROR
                           then
                             let L3 = record_call (Ev_free (cipher_out state1))
                                        (L2\<lparr>env := gcry_free X (env L2) (cipher_out state1)\<rparr>);
                                 L4 = set_cipher r (state1\<lparr>cipher_out := NULL\<rparr>) L3
                             in (Raise (RuntimeError
                                   (''gcry_cipher_encrypt() failed with '' @ gcry_strerror X err)), L4)
                           else
                             (case lua_pushlstring X L2 (cipher_out state1) out_len of
                                None \<Rightarrow> (Raise MemoryError, L2)
                              | Some v \<Rightarrow>
                                  let L3 = record_call (Ev_free (cipher_out state1))
                                             (L2\<lparr>env := gcry_free X (env L2) (cipher_out state1)\<rparr>);
                                      L4 = set_cipher r (state1\<lparr>cipher_out := NULL\<rparr>) L3
                                  in (Return [v], L4))))))"

definition lgcrypt_cipher_decrypt :: "'e externs \<Rightarrow> 'e lua_State \<Rightarrow> lua_value list \<Rightarrow> result \<times> 'e lua_State" where
  "lgcrypt_cipher_decrypt X L args =
     (case checkCipher L args 1 of Inl e \<Rightarrow> (Raise e, L) | Inr (r, state) \<Rightarrow>
     (case luaL_checklstring X args 2 of Inl e \<Rightarrow> (Raise e, L) | Inr inp \<Rightarrow>
        let in_len = length inp; out_len = in_len
        in (case gcry_malloc X (env L) out_len of (p, e1) \<Rightarrow>
              let state1 = state\<lparr>cipher_out := p\<rparr>;
                  L1 = record_call (Ev_malloc out_len p) (set_cipher r state1 (L\<lparr>env := e1\<rparr>))
              in if cipher_out state1 = NULL
                 then (Raise (RuntimeError ''Failed to allocate memory for plaintext''), L1)
                 else
                   (case gcry_cipher_decrypt X (env L1) (cipher_h state1) (cipher_out state1) out_len inp of
                      (err, e2) \<Rightarrow>
                        let L2 = record_call
                                   (Ev_cipher_decrypt (cipher_h state1) (cipher_out state1) out_len inp)
                                   (L1\<lparr>env := e2\<rparr>)
                        in if err \<noteq> GPG_ERR_NO_ERROR
                           then
                             let L3 = record_call (Ev_free (cipher_out state1))
                                        (L2\<lparr>env := gcry_free X (env L2) (cipher_out state1)\<rparr>);
                                 L4 = set_cipher r (state1\<lparr>cipher_out := NULL\<rparr>) L3
                             in (Raise (RuntimeError
                                   (''gcry_cipher_decrypt() failed with '' @ gcry_strerror X err)), L4)
                           else
                             (case lua_pushlstring X L2 (cipher_out state1) out_len of
                                None \<Rightarrow> (Raise MemoryError, L2)
                              | Some v \<Rightarrow>
                                  let L3 = record_call (Ev_free (cipher_out state1))
                                             (L2\<lparr>env := gcry_free X (env L2) (cipher_out state1)\<rparr>);
                                      L4 = set_cipher r (state1\<lparr>cipher_out := NULL\<rparr>) L3
                                  in (Return [v], L4))))))"

subsection \<open>Message digests\<close>

definition lgcrypt_hash_new :: "'e externs \<Rightarrow> 'e lua_State \<Rightarrow> lua_error + (nat \<times> LgcryptHash \<times> 'e lua_State)" where
  "lgcrypt_hash_new X L =
     (if lua_newuserdata_ok X (env L)
      then let state = \<lparr>hash_h = NULL\<rparr>
           in Inr (length (udata L), state, L\<lparr>udata := udata L @ [Hash state]\<rparr>)
      else Inl MemoryError)"

definition checkHash :: "'e lua_State \<Rightarrow> lua_value list \<Rightarrow> nat \<Rightarrow> lua_error + (nat \<times> LgcryptHash)" where
  "checkHash L args n =
     (case stack_at args n of
        Some (LUserdata r) \<Rightarrow>
          (if r < length (udata L)
           then (case udata L ! r of Hash s \<Rightarrow> Inr (r, s) | Cipher _ \<Rightarrow> Inl (ArgError n))
           else Inl (ArgError n))
      | _ \<Rightarrow> Inl (ArgError n))"

definition set_hash :: "nat \<Rightarrow> LgcryptHash \<Rightarrow> 'e lua_State \<Rightarrow> 'e lua_State" where
  "set_hash r s L = L\<lparr>udata := (udata L)[r := Hash s]\<rparr>"

text \<open>\<^verbatim>\<open>flags = (unsigned int)luaL_optinteger(L, 2, 0)\<close>.\<close>

definition lgcrypt_hash_open :: "'e externs \<Rightarrow> 'e lua_State \<Rightarrow> lua_value list \<Rightarrow> result \<times> 'e lua_State" where
  "lgcrypt_hash_open X L args =
     (case luaL_checkint X args 1 of Inl e \<Rightarrow> (Raise e, L) | Inr algo \<Rightarrow>
     (case luaL_optinteger X args 2 0 of Inl e \<Rightarrow> (Raise e, L) | Inr fl \<Rightarrow>
     (case lgcrypt_hash_new X L of Inl e \<Rightarrow> (Raise e, L) | Inr (r, state, L1) \<Rightarrow>
        (case gcry_md_open X (env L1) (hash_h state) algo (of_int fl) of (err, hdl, e') \<Rightarrow>
           let state1 = state\<lparr>hash_h := hdl\<rparr>;
               L2 = record_call (Ev_md_open algo (of_int fl) err hdl)
                      (set_hash r state1 (L1\<lparr>env := e'\<rparr>))
           in if err \<noteq> GPG_ERR_NO_ERROR
              then (Raise (RuntimeError (''gcry_md_open() failed with '' @ gcry_strerror X err)), L2)
              else (Return [LUserdata r], L2)))))"

definition lgcrypt_hash___gc :: "'e externs \<Rightarrow> 'e lua_State \<Rightarrow> lua_value list \<Rightarrow> result \<times> 'e lua_State" where
  "lgcrypt_hash___gc X L args =
     (case checkHash L args 1 of Inl e \<Rightarrow> (Raise e, L) | Inr (r, state) \<Rightarrow>
        let L1 = (if hash_h state \<noteq> NULL
                  then record_call (Ev_md_close (hash_h state))
                         (L\<lparr>env := gcry_md_close X (env L) (hash_h state)\<rparr>)
                  else L)
        in (Return [], L1))"

definition lgcrypt_hash_setkey :: "'e externs \<Rightarrow> 'e lua_State \<Rightarrow> lua_value list \<Rightarrow> result \<times> 'e lua_State" where
  "lgcrypt_hash_setkey X L args =
     (case checkHash L args 1 of Inl e \<Rightarrow> (Raise e, L) | Inr (r, state) \<Rightarrow>
     (case luaL_checklstring X args 2 of Inl e \<Rightarrow> (Raise e, L) | Inr key \<Rightarrow>
        (case gcry_md_setkey X (env L) (hash_h state) key of (err, e') \<Rightarrow>
           let L1 = record_call (Ev_md_setkey (hash_h state) key) (L\<lparr>env := e'\<rparr>)
           in if err \<noteq> GPG_ERR_NO_ERROR
              then (Raise (RuntimeError (''gcry_md_setkey() failed with '' @ gcry_strerror X err)), L1)
              else (Return [], L1))))"

definition lgcrypt_hash_reset :: "'e externs \<Rightarrow> 'e lua_State \<Rightarrow> lua_value list \<Rightarrow> result \<times> 'e lua_State" where
  "lgcrypt_hash_reset X L args =
     (case checkHash L args 1 of Inl e \<Rightarrow> (Raise e, L) | Inr (r, state) \<Rightarrow>
        (Return [], record_call (Ev_md_reset (hash_h state))
                      (L\<lparr>env := gcry_md_reset X (env L) (hash_h state)\<rparr>)))"

definition lgcrypt_hash_write :: "'e externs \<Rightarrow> 'e lua_State \<Rightarrow> lua_value list \<Rightarrow> result \<times> 'e lua_State" where
  "lgcrypt_hash_write X L args =
     (case checkHash L args 1 of Inl e \<Rightarrow> (Raise e, L) | Inr (r, state) \<Rightarrow>
     (case luaL_checklstring X args 2 of Inl e \<Rightarrow> (Raise e, L) | Inr buffer \<Rightarrow>
        (Return [], record_call (Ev_md_write (hash_h state) buffer)
                      (L\<lparr>env := gcry_md_write X (env L) (hash_h state) buffer\<rparr>))))"

text \<open>
  \<^verbatim>\<open>lgcrypt_hash_read\<close>. The default of the optional argument is an argument
  expression of the C call, so \<^verbatim>\<open>gcry_md_get_algo\<close> is called whether or not the
  script passed an algorithm. The digest is read from the provider's buffer; no call
  releases that buffer.
\<close>

definition lgcrypt_hash_read :: "'e externs \<Rightarrow> 'e lua_State \<Rightarrow> lua_value list \<Rightarrow> result \<times> 'e lua_State" where
  "lgcrypt_hash_read X L args =
     (case checkHash L args 1 of Inl e \<Rightarrow> (Raise e, L) | Inr (r, state) \<Rightarrow>
        let L1 = record_call (Ev_md_get_algo (hash_h state)) L
        in (case luaL_optinteger X args 2 (sint (gcry_md_get_algo X (env L) (hash_h state))) of
              Inl e \<Rightarrow> (Raise e, L1)
            | Inr a \<Rightarrow>
                let algo = (of_int a :: c_int);
                    L2 = record_call (Ev_md_is_enabled (hash_h state) algo) L1
                in if gcry_md_is_enabled X (env L2) (hash_h state) algo = 0
                   then (Raise (RuntimeError ''Unable to obtain digest for a disabled algorithm''), L2)
                   else
                     let digest_len = unat (gcry_md_get_algo_dlen X algo);
                         L3 = record_call (Ev_md_get_algo_dlen algo) L2
                     in if digest_len = 0
                        then (Raise (RuntimeError ''Invalid digest length detected''), L3)
                        else
                          (case gcry_md_read X (env L3) (hash_h state) algo of (digest, e') \<Rightarrow>
                             let L4 = record_call (Ev_md_read (hash_h state) algo) (L3\<lparr>env := e'\<rparr>)
                             in if digest = NULL
                                then (Raise (RuntimeError ''Failed to obtain digest''), L4)
                                else
                                  (case lua_pushlstring X L4 digest digest_len of
                                     None \<Rightarrow> (Raise MemoryError, L4)
                                   | Some v \<Rightarrow> (Return [v], L4)))))"

subsection \<open>Module functions and registration\<close>

definition lgcrypt_init :: "'e externs \<Rightarrow> 'e lua_State \<Rightarrow> lua_value list \<Rightarrow> result \<times> 'e lua_State" where
  "lgcrypt_init X L args =
     (case gcry_control X (env L) GCRYCTL_INITIALIZATION_FINISHED_P of (fin, e1) \<Rightarrow>
        let L1 = record_call (Ev_control GCRYCTL_INITIALIZATION_FINISHED_P) (L\<lparr>env := e1\<rparr>)
        in if fin \<noteq> 0
           then (Raise (RuntimeError ''libgcrypt was already initialized''), L1)
           else
             let L2 = record_call Ev_check_version (L1\<lparr>env := gcry_check_version X (env L1)\<rparr>);
                 L3 = record_call (Ev_control GCRYCTL_DISABLE_SECMEM)
                        (L2\<lparr>env := snd (gcry_control X (env L2) GCRYCTL_DISABLE_SECMEM)\<rparr>);
                 L4 = record_call (Ev_control GCRYCTL_INITIALIZATION_FINISHED)
                        (L3\<lparr>env := snd (gcry_control X (env L3) GCRYCTL_INITIALIZATION_FINISHED)\<rparr>)
             in (Return [], L4))"

text \<open>
  The method tables, as the arrays \<^verbatim>\<open>lgcrypt_cipher_meta\<close>, \<^verbatim>\<open>lgcrypt_hash_meta\<close>
  and \<^verbatim>\<open>lgcrypt\<close> list them.
\<close>

type_synonym 'e cfunction = "'e externs \<Rightarrow> 'e lua_State \<Rightarrow> lua_value list \<Rightarrow> result \<times> 'e lua_State"

definition lgcrypt_cipher_meta :: "(string \<times> 'e cfunction) list" where
  "lgcrypt_cipher_meta =
     [(''__gc'', lgcrypt_cipher___gc),
      (''setkey'', lgcrypt_cipher_setkey),
      (''setiv'', lgcrypt_cipher_setiv),
      (''reset'', lgcrypt_cipher_reset),
      (''encrypt'', lgcrypt_cipher_encrypt),
      (''decrypt'', lgcrypt_cipher_decrypt)]"

definition lgcrypt_hash_meta :: "(string \<times> 'e cfunction) list" where
  "lgcrypt_hash_meta =
     [(''__gc'', lgcrypt_hash___gc),
      (''setkey'', lgcrypt_hash_setkey),
      (''reset'', lgcrypt_hash_reset),
      (''write'', lgcrypt_hash_write),
      (''read'', lgcrypt_hash_read)]"

definition lgcrypt :: "(string \<times> 'e cfunction) list" where
  "lgcrypt =
     [(''init'', lgcrypt_init),
      (''Cipher'', lgcrypt_cipher_open),
      (''Hash'', lgcrypt_hash_open)]"

text \<open>
  \<^verbatim>\<open>register_metatable\<close>: a new metatable receives every entry of \<open>funcs\<close>
  (\<^verbatim>\<open>luaL_setfuncs\<close>) and is then stored in its own \<^verbatim>\<open>__index\<close> field. A field of
  the table is so a C function or the table itself.
\<close>

datatype 'f lua_field = Func 'f | Self

definition register_metatable :: "(string \<times> 'f) list \<Rightarrow> string \<Rightarrow> 'f lua_field option" where
  "register_metatable funcs =
     (fold (\<lambda>(name, f) t. t(name \<mapsto> Func f)) funcs Map.empty)(''__index'' \<mapsto> Self)"

text \<open>
  Indexing a userdata with a key (what the method call \<^verbatim>\<open>obj:name(...)\<close> does
  first) goes through the metatable's \<^verbatim>\<open>__index\<close> field; where that is the
  metatable itself the result is the metatable's own field of that name.
\<close>

definition index_userdata :: "(string \<Rightarrow> 'f lua_field option) \<Rightarrow> string \<Rightarrow> 'f lua_field option" where
  "index_userdata mt key = (case mt ''__index'' of Some Self \<Rightarrow> mt key | _ \<Rightarrow> None)"

definition metatable_of :: "userdata \<Rightarrow> string \<Rightarrow> 'e cfunction lua_field option" where
  "metatable_of u =
     (case u of
        Cipher _ \<Rightarrow> register_metatable lgcrypt_cipher_meta
      | Hash _ \<Rightarrow> register_metatable lgcrypt_hash_meta)"

subsection \<open>Scripts\<close>

text \<open>
  What a script can do with the module: call one of the three module functions, or
  call a method by name on a handle a constructor returned to it. \<open>call_method\<close> is
  Lua's \<^verbatim>\<open>obj:name(...)\<close>: the function found by indexing the object is called with
  the object as first argument.
\<close>

datatype script_call =
    Call_init "lua_value list"
  | Call_Cipher "lua_value list"
  | Call_Hash "lua_value list"
  | Call_method nat string "lua_value list"

definition call_method :: "'e externs \<Rightarrow> 'e lua_State \<Rightarrow> nat \<Rightarrow> string \<Rightarrow> lua_value list \<Rightarrow> result \<times> 'e lua_State" where
  "call_method X L r name args =
     (if r < length (udata L)
      then (case index_userdata (metatable_of (udata L ! r)) name of
              Some (Func f) \<Rightarrow> f X L (LUserdata r # args)
            | _ \<Rightarrow> (Raise (RuntimeError ''attempt to call a non-function value''), L))
      else (Raise (RuntimeError ''attempt to index a non-object value''), L))"

definition returned_handles :: "result \<Rightarrow> nat list" where
  "returned_handles res =
     (case res of
        Return vs \<Rightarrow> concat (map (\<lambda>v. case v of LUserdata r \<Rightarrow> [r] | _ \<Rightarrow> []) vs)
      | Raise _ \<Rightarrow> [])"

text \<open>
  A script is run call by call; every call is protected, so the script goes on after
  an error, in the state the failed call left. The second component lists the handles
  returned to the script so far; a method call on anything else is not a call the
  script can make and is skipped.
\<close>

fun exec :: "'e externs \<Rightarrow> 'e lua_State \<times> nat list \<Rightarrow> script_call \<Rightarrow> 'e lua_State \<times> nat list" where
  "exec X (L, hs) (Call_init args) = (snd (lgcrypt_init X L args), hs)"
| "exec X (L, hs) (Call_Cipher args) =
     (snd (lgcrypt_cipher_open X L args), returned_handles (fst (lgcrypt_cipher_open X L args)) @ hs)"
| "exec X (L, hs) (Call_Hash args) =
     (snd (lgcrypt_hash_open X L args), returned_handles (fst (lgcrypt_hash_open X L args)) @ hs)"
| "exec X (L, hs) (Call_method r name args) =
     (if r \<in> set hs then (snd (call_method X L r name args), hs) else (L, hs))"

definition run :: "'e externs \<Rightarrow> 'e lua_State \<times> nat list \<Rightarrow> script_call list \<Rightarrow> 'e lua_State \<times> nat list" where
  "run X s cs = foldl (exec X) s cs"


text \<open>One hash handle from opening to reading: the chunks are written in order.\<close>

definition hash_feed :: "'e externs \<Rightarrow> 'e lua_State \<Rightarrow> nat \<Rightarrow> bytes list \<Rightarrow> 'e lua_State" where
  "hash_feed X L r chunks =
     foldl (\<lambda>M c. snd (lgcrypt_hash_write X M [LUserdata r, LString c])) L chunks"

definition hash_session :: "'e externs \<Rightarrow> 'e lua_State \<Rightarrow> int \<Rightarrow> bytes list \<Rightarrow> result" where
  "hash_session X L algo chunks =
     (case lgcrypt_hash_open X L [LNumber algo] of
        (Raise e, L1) \<Rightarrow> Raise e
      | (Return vs, L1) \<Rightarrow>
          (case returned_handles (Return vs) of
             [r] \<Rightarrow> fst (lgcrypt_hash_read X (hash_feed X L1 r chunks) [LUserdata r])
           | _ \<Rightarrow> Return vs))"

subsection \<open>Following the provider's resources through the recorded calls\<close>

text \<open>
  The recorded calls say which native resources are live: a cipher or digest context
  from the successful open that returned it to its close, a buffer from the
  \<^verbatim>\<open>gcry_malloc\<close> that returned it to its \<^verbatim>\<open>gcry_free\<close>. \<open>track\<close> moves this
  book-keeping over one call and answers \<open>None\<close> when the call names a context or a
  buffer that is not live: a second close or free, or a use after the close.
\<close>

record tracker =
  open_ciphers :: "ptr set"
  open_mds :: "ptr set"
  live_bufs :: "ptr set"

definition no_resources :: tracker where
  "no_resources = \<lparr>open_ciphers = {}, open_mds = {}, live_bufs = {}\<rparr>"

definition on_cipher :: "ptr \<Rightarrow> tracker \<Rightarrow> tracker option" where
  "on_cipher h t = (if h \<in> open_ciphers t then Some t else None)"

definition on_md :: "ptr \<Rightarrow> tracker \<Rightarrow> tracker option" where
  "on_md h t = (if h \<in> open_mds t then Some t else None)"

fun track :: "event \<Rightarrow> tracker \<Rightarrow> tracker option" where
  "track (Ev_malloc n p) t = Some (if p = NULL then t else t\<lparr>live_bufs := insert p (live_bufs t)\<rparr>)"
| "track (Ev_free p) t =
     (if p \<in> live_bufs t then Some (t\<lparr>live_bufs := live_bufs t - {p}\<rparr>) else None)"
| "track (Ev_cipher_open algo mode err h) t =
     Some (if err = GPG_ERR_NO_ERROR \<and> h \<noteq> NULL
           then t\<lparr>open_ciphers := insert h (open_ciphers t)\<rparr> else t)"
| "track (Ev_cipher_close h) t =
     (if h \<in> open_ciphers t then Some (t\<lparr>open_ciphers := open_ciphers t - {h}\<rparr>) else None)"
| "track (Ev_cipher_setkey h key) t = on_cipher h t"
| "track (Ev_cipher_setiv h iv) t = on_cipher h t"
| "track (Ev_cipher_reset h) t = on_cipher h t"
| "track (Ev_cipher_encrypt h p n inp) t = (if p \<in> live_bufs t then on_cipher h t else None)"
| "track (Ev_cipher_decrypt h p n inp) t = (if p \<in> live_bufs t then on_cipher h t else None)"
| "track (Ev_md_open algo flags err h) t =
     Some (if err = GPG_ERR_NO_ERROR \<and> h \<noteq> NULL
           then t\<lparr>open_mds := insert h (open_mds t)\<rparr> else t)"
| "track (Ev_md_close h) t =
     (if h \<in> open_mds t then Some (t\<lparr>open_mds := open_mds t - {h}\<rparr>) else None)"
| "track (Ev_md_setkey h key) t = on_md h t"
| "track (Ev_md_reset h) t = on_md h t"
| "track (Ev_md_write h bs) t = on_md h t"
| "track (Ev_md_get_algo h) t = on_md h t"
| "track (Ev_md_is_enabled h algo) t = on_md h t"
| "track (Ev_md_get_algo_dlen algo) t = Some t"
| "track (Ev_md_read h algo) t = on_md h t"
| "track (Ev_control c) t = Some t"
| "track Ev_check_version t = Some t"

fun replay :: "event list \<Rightarrow> tracker \<Rightarrow> tracker option" where
  "replay [] t = Some t"
| "replay (ev # evs) t = (case track ev t of None \<Rightarrow> None | Some t' \<Rightarrow> replay evs t')"

definition resource_safe :: "event list \<Rightarrow> bool" where
  "resource_safe evs = (replay evs no_resources \<noteq> None)"






text \<open>
  The provider's side of the constructors: an open that reports success has stored a
  handle in the slot it was given.
\<close>

definition opens_store_handles :: "'e externs \<Rightarrow> bool" where
  "opens_store_handles X =
     ((\<forall>e h0 algo mode flags.
         fst (gcry_cipher_open X e h0 algo mode flags) = GPG_ERR_NO_ERROR \<longrightarrow>
         fst (snd (gcry_cipher_open X e h0 algo mode flags)) \<noteq> NULL) \<and>
      (\<forall>e h0 algo flags.
         fst (gcry_md_open X e h0 algo flags) = GPG_ERR_NO_ERROR \<longrightarrow>
         fst (snd (gcry_md_open X e h0 algo flags)) \<noteq> NULL))"

section \<open>A reference provider\<close>

text \<open>
  Modelled from the spec: libgcrypt itself, which the repository only calls. The
  message-digest half follows the spec's description of the provider: a context is
  opened for an algorithm and flags, \<^verbatim>\<open>write\<close> appends bytes to the running digest
  computation, \<^verbatim>\<open>reset\<close> clears the accumulated state, \<^verbatim>\<open>read\<close> hands out a
  buffer the provider owns, holding the digest of what was written, and the digest
  length is fixed by the algorithm. The digest function and the table of digest lengths
  stay parameters. The cipher half is a stand-in with the interface's shape (a cipher
  with blocks of two bytes that XORs every byte with the first key byte), used to run
  the binding on concrete inputs. Memory blocks are zero-filled when allocated, and a
  request for zero bytes is refused, as libgcrypt's allocator does. A failing cipher
  open leaves the caller's handle slot as it found it; a failing digest open stores
  \<open>NULL\<close> in it.
\<close>

record md_ctx =
  md_algo :: c_int
  md_flags :: c_int
  md_key :: bytes
  md_data :: bytes

record cipher_ctx =
  cx_key :: "bytes option"
  cx_iv :: bytes

record ref_state =
  rs_next :: ptr
  rs_blocks :: "ptr \<Rightarrow> bytes option"
  rs_ciphers :: "ptr \<Rightarrow> cipher_ctx option"
  rs_mds :: "ptr \<Rightarrow> md_ctx option"
  rs_version_checked :: bool
  rs_secmem :: bool
  rs_finished :: bool

record ref_params =
  rp_digest :: "md_ctx \<Rightarrow> bytes"
  rp_dlen :: "c_int \<Rightarrow> 32 word"
  rp_heap_limit :: nat
  rp_lua_limit :: nat

text \<open>
  Modelled from the spec: the provider's allocator and cipher operations (a stand-in
  for libgcrypt's, which are not in the repository).
\<close>

definition ref_malloc :: "ref_params \<Rightarrow> ref_state \<Rightarrow> nat \<Rightarrow> ptr \<times> ref_state" where
  "ref_malloc P e n =
     (if n = 0 \<or> rp_heap_limit P < n then (NULL, e)
      else (Suc (rs_next e),
            e\<lparr>rs_next := Suc (rs_next e),
              rs_blocks := (rs_blocks e)(Suc (rs_next e) \<mapsto> replicate n 0)\<rparr>))"

definition ref_free :: "ref_state \<Rightarrow> ptr \<Rightarrow> ref_state" where
  "ref_free e p = e\<lparr>rs_blocks := (rs_blocks e)(p := None)\<rparr>"

definition ref_cipher_open :: "ref_state \<Rightarrow> ptr \<Rightarrow> c_int \<Rightarrow> c_int \<Rightarrow> c_int \<Rightarrow> gcry_error_t \<times> ptr \<times> ref_state" where
  "ref_cipher_open e h0 algo mode flags =
     (if algo \<notin> {7, 8, 9} then (12, h0, e)
      else if mode \<noteq> 3 then (71, h0, e)
      else (0, Suc (rs_next e),
            e\<lparr>rs_next := Suc (rs_next e),
              rs_ciphers := (rs_ciphers e)(Suc (rs_next e) \<mapsto> \<lparr>cx_key = None, cx_iv = []\<rparr>)\<rparr>))"

definition ref_cipher_close :: "ref_state \<Rightarrow> ptr \<Rightarrow> ref_state" where
  "ref_cipher_close e h = e\<lparr>rs_ciphers := (rs_ciphers e)(h := None)\<rparr>"

definition ref_cipher_setkey :: "ref_state \<Rightarrow> ptr \<Rightarrow> bytes \<Rightarrow> gcry_error_t \<times> ref_state" where
  "ref_cipher_setkey e h key =
     (case rs_ciphers e h of
        None \<Rightarrow> (45, e)
      | Some c \<Rightarrow>
          if key = [] then (44, e)
          else (0, e\<lparr>rs_ciphers := (rs_ciphers e)(h \<mapsto> c\<lparr>cx_key := Some key\<rparr>)\<rparr>))"

definition ref_cipher_setiv :: "ref_state \<Rightarrow> ptr \<Rightarrow> bytes \<Rightarrow> gcry_error_t \<times> ref_state" where
  "ref_cipher_setiv e h iv =
     (case rs_ciphers e h of
        None \<Rightarrow> (45, e)
      | Some c \<Rightarrow> (0, e\<lparr>rs_ciphers := (rs_ciphers e)(h \<mapsto> c\<lparr>cx_iv := iv\<rparr>)\<rparr>))"

definition ref_cipher_reset :: "ref_state \<Rightarrow> ptr \<Rightarrow> gcry_error_t \<times> ref_state" where
  "ref_cipher_reset e h =
     (case rs_ciphers e h of
        None \<Rightarrow> (45, e)
      | Some c \<Rightarrow> (0, e\<lparr>rs_ciphers := (rs_ciphers e)(h \<mapsto> c\<lparr>cx_iv := []\<rparr>)\<rparr>))"

text \<open>The provider writes its output into the caller's block, never past its end.\<close>

definition write_block :: "bytes \<Rightarrow> bytes \<Rightarrow> bytes" where
  "write_block blk bs = take (length blk) bs @ drop (length bs) blk"

definition ref_cipher_crypt :: "ref_state \<Rightarrow> ptr \<Rightarrow> ptr \<Rightarrow> nat \<Rightarrow> bytes \<Rightarrow> gcry_error_t \<times> ref_state" where
  "ref_cipher_crypt e h outp outsize inp =
     (case rs_ciphers e h of
        None \<Rightarrow> (45, e)
      | Some c \<Rightarrow>
          (case cx_key c of
             None \<Rightarrow> (181, e)
           | Some key \<Rightarrow>
               if length inp mod 2 \<noteq> 0 then (139, e)
               else if outsize < length inp then (200, e)
               else
                 (case rs_blocks e outp of
                    None \<Rightarrow> (45, e)
                  | Some blk \<Rightarrow>
                      (0, e\<lparr>rs_blocks := (rs_blocks e)
                              (outp \<mapsto> write_block blk (map (\<lambda>b. xor b (hd key)) inp))\<rparr>))))"

text \<open>
  Modelled from the spec: the provider's digest operations, which are libgcrypt's and
  not in the repository. The spec's interface is open(algorithm, flags), close, setkey,
  reset, write, read(algorithm) with a borrowed buffer or null, get\_algo, get\_algo\_dlen
  and is\_enabled; \<^verbatim>\<open>write\<close> ``appends bytes to the running digest computation'' and
  \<^verbatim>\<open>reset\<close> ``clears accumulated digest state''.
\<close>

definition ref_md_open :: "ref_params \<Rightarrow> ref_state \<Rightarrow> ptr \<Rightarrow> c_int \<Rightarrow> c_int \<Rightarrow> gcry_error_t \<times> ptr \<times> ref_state" where
  "ref_md_open P e h0 algo flags =
     (if rp_dlen P algo = 0 then (5, NULL, e)
      else (0, Suc (rs_next e),
            e\<lparr>rs_next := Suc (rs_next e),
              rs_mds := (rs_mds e)(Suc (rs_next e) \<mapsto>
                 \<lparr>md_algo = algo, md_flags = flags, md_key = [], md_data = []\<rparr>)\<rparr>))"

definition ref_md_close :: "ref_state \<Rightarrow> ptr \<Rightarrow> ref_state" where
  "ref_md_close e h = e\<lparr>rs_mds := (rs_mds e)(h := None), rs_blocks := (rs_blocks e)(h := None)\<rparr>"

definition ref_md_setkey :: "ref_state \<Rightarrow> ptr \<Rightarrow> bytes \<Rightarrow> gcry_error_t \<times> ref_state" where
  "ref_md_setkey e h key =
     (case rs_mds e h of
        None \<Rightarrow> (45, e)
      | Some c \<Rightarrow>
          if \<not> bit (md_flags c) 1 then (70, e)
          else (0, e\<lparr>rs_mds := (rs_mds e)(h \<mapsto> c\<lparr>md_key := key\<rparr>)\<rparr>))"

definition ref_md_reset :: "ref_state \<Rightarrow> ptr \<Rightarrow> ref_state" where
  "ref_md_reset e h =
     (case rs_mds e h of
        None \<Rightarrow> e
      | Some c \<Rightarrow> e\<lparr>rs_mds := (rs_mds e)(h \<mapsto> c\<lparr>md_data := []\<rparr>)\<rparr>)"

definition ref_md_write :: "ref_state \<Rightarrow> ptr \<Rightarrow> bytes \<Rightarrow> ref_state" where
  "ref_md_write e h bs =
     (case rs_mds e h of
        None \<Rightarrow> e
      | Some c \<Rightarrow> e\<lparr>rs_mds := (rs_mds e)(h \<mapsto> c\<lparr>md_data := md_data c @ bs\<rparr>)\<rparr>)"

definition ref_md_get_algo :: "ref_state \<Rightarrow> ptr \<Rightarrow> c_int" where
  "ref_md_get_algo e h = (case rs_mds e h of None \<Rightarrow> 0 | Some c \<Rightarrow> md_algo c)"

definition ref_md_is_enabled :: "ref_state \<Rightarrow> ptr \<Rightarrow> c_int \<Rightarrow> c_int" where
  "ref_md_is_enabled e h algo =
     (case rs_mds e h of None \<Rightarrow> 0 | Some c \<Rightarrow> if md_algo c = algo then 1 else 0)"

definition ref_md_read :: "ref_params \<Rightarrow> ref_state \<Rightarrow> ptr \<Rightarrow> c_int \<Rightarrow> ptr \<times> ref_state" where
  "ref_md_read P e h algo =
     (case rs_mds e h of
        None \<Rightarrow> (NULL, e)
      | Some c \<Rightarrow>
          if md_algo c = algo
          then (h, e\<lparr>rs_blocks := (rs_blocks e)(h \<mapsto> rp_digest P c)\<rparr>)
          else (NULL, e))"

definition ref_control :: "ref_state \<Rightarrow> gcry_ctl \<Rightarrow> gcry_error_t \<times> ref_state" where
  "ref_control e c =
     (case c of
        GCRYCTL_INITIALIZATION_FINISHED_P \<Rightarrow> (if rs_finished e then 1 else 0, e)
      | GCRYCTL_DISABLE_SECMEM \<Rightarrow> (0, e\<lparr>rs_secmem := False\<rparr>)
      | GCRYCTL_INITIALIZATION_FINISHED \<Rightarrow> (0, e\<lparr>rs_finished := True\<rparr>))"

definition ref_check_version :: "ref_state \<Rightarrow> ref_state" where
  "ref_check_version e = e\<lparr>rs_version_checked := True\<rparr>"

definition ref_strerror :: "gcry_error_t \<Rightarrow> string" where
  "ref_strerror err =
     (if err = 0 then ''Success''
      else if err = 5 then ''Invalid digest algorithm''
      else if err = 12 then ''Invalid cipher algorithm''
      else if err = 44 then ''Invalid key length''
      else if err = 45 then ''Invalid argument''
      else if err = 70 then ''Conflicting use''
      else if err = 71 then ''Invalid cipher mode''
      else if err = 139 then ''Invalid length''
      else if err = 181 then ''Missing key''
      else if err = 200 then ''Buffer too short''
      else ''Unknown error code'')"

definition ref_peek :: "ref_state \<Rightarrow> ptr \<Rightarrow> nat \<Rightarrow> byte" where
  "ref_peek e p i =
     (case rs_blocks e p of None \<Rightarrow> 0 | Some bs \<Rightarrow> if i < length bs then bs ! i else 0)"

definition ref_externs :: "ref_params \<Rightarrow> ref_state externs" where
  "ref_externs P =
     \<lparr>gcry_malloc = ref_malloc P,
      gcry_free = ref_free,
      gcry_cipher_open = ref_cipher_open,
      gcry_cipher_close = ref_cipher_close,
      gcry_cipher_setkey = ref_cipher_setkey,
      gcry_cipher_setiv = ref_cipher_setiv,
      gcry_cipher_reset = ref_cipher_reset,
      gcry_cipher_encrypt = ref_cipher_crypt,
      gcry_cipher_decrypt = ref_cipher_crypt,
      gcry_md_open = ref_md_open P,
      gcry_md_close = ref_md_close,
      gcry_md_setkey = ref_md_setkey,
      gcry_md_reset = ref_md_reset,
      gcry_md_write = ref_md_write,
      gcry_md_get_algo = ref_md_get_algo,
      gcry_md_is_enabled = ref_md_is_enabled,
      gcry_md_get_algo_dlen = rp_dlen P,
      gcry_md_read = ref_md_read P,
      gcry_control = ref_control,
      gcry_check_version = ref_check_version,
      gcry_strerror = ref_strerror,
      peek = ref_peek,
      lua_newuserdata_ok = (\<lambda>e. True),
      lua_pushlstring_ok = (\<lambda>e s. length s \<le> rp_lua_limit P),
      lua_str2number = (\<lambda>s. None),
      lua_number2str = (\<lambda>i. [])\<rparr>"

text \<open>
  A concrete instance: algorithm 8 has a two-byte digest (the sum of the bytes written
  and their number), the heap hands out at most 8 bytes at once and the host builds
  strings of at most 4 bytes.
\<close>

definition toy_params :: ref_params where
  "toy_params =
     \<lparr>rp_digest = (\<lambda>c. [sum_list (md_data c), of_nat (length (md_data c))]),
      rp_dlen = (\<lambda>a. if a = 8 then 2 else 0),
      rp_heap_limit = 8,
      rp_lua_limit = 4\<rparr>"

definition toy :: "ref_state externs" where
  "toy = ref_externs toy_params"

text \<open>The same instance on a host that builds strings of at most one byte.\<close>

definition toy_small_host :: "ref_state externs" where
  "toy_small_host = ref_externs (toy_params\<lparr>rp_lua_limit := 1\<rparr>)"

text \<open>
  The concrete instance with a cipher open that places every context at address 1, as
  an allocator does that hands a released address out again.
\<close>

definition toy_reusing :: "ref_state externs" where
  "toy_reusing =
     toy\<lparr>gcry_cipher_open := (\<lambda>e h0 algo mode flags.
            (0, 1, e\<lparr>rs_ciphers := (rs_ciphers e)(1 \<mapsto> \<lparr>cx_key = None, cx_iv = []\<rparr>)\<rparr>))\<rparr>"

definition ref_init :: ref_state where
  "ref_init =
     \<lparr>rs_next = 0, rs_blocks = Map.empty, rs_ciphers = Map.empty, rs_mds = Map.empty,
      rs_version_checked = False, rs_secmem = True, rs_finished = False\<rparr>"

definition lua_init :: "ref_state lua_State" where
  "lua_init = \<lparr>env = ref_init, udata = [], calls = []\<rparr>"

text \<open>Two states of the concrete instance: a cipher handle just opened, and one with key and IV set.\<close>

definition toy_cipher_opened :: "ref_state lua_State" where
  "toy_cipher_opened = snd (lgcrypt_cipher_open toy lua_init [LNumber 7, LNumber 3])"

definition toy_cipher_ready :: "ref_state lua_State" where
  "toy_cipher_ready =
     snd (lgcrypt_cipher_setiv toy
            (snd (lgcrypt_cipher_setkey toy toy_cipher_opened [LUserdata 0, LString [90]]))
            [LUserdata 0, LString [1, 2]])"

definition toy_hash_opened :: "ref_state lua_State" where
  "toy_hash_opened = snd (lgcrypt_hash_open toy lua_init [LNumber 8])"

definition toy_hash_written :: "ref_state lua_State" where
  "toy_hash_written = snd (lgcrypt_hash_write toy toy_hash_opened [LUserdata 0, LString [1, 2, 3]])"


section \<open>Evaluating the concrete instance\<close>
lemmas toy_simps = toy_def ref_externs_def toy_params_def lua_init_def ref_init_def
  ref_malloc_def ref_free_def ref_cipher_open_def ref_cipher_close_def ref_cipher_setkey_def
  ref_cipher_setiv_def ref_cipher_reset_def ref_cipher_crypt_def write_block_def
  ref_md_open_def ref_md_close_def ref_md_setkey_def ref_md_reset_def ref_md_write_def
  ref_md_get_algo_def ref_md_is_enabled_def ref_md_read_def ref_control_def
  ref_check_version_def ref_strerror_def ref_peek_def

lemmas api_simps = stack_at_def luaL_checkinteger_def luaL_checkint_def luaL_optinteger_def
  luaL_checklstring_def read_bytes_def lua_pushlstring_def record_call_def
  checkCipher_def set_cipher_def lgcrypt_cipher_new_def checkHash_def set_hash_def
  lgcrypt_hash_new_def Let_def

lemma toy_cipher_opened_eq:
  "toy_cipher_opened =
     \<lparr>env = ref_init\<lparr>rs_next := 1, rs_ciphers := [1 \<mapsto> \<lparr>cx_key = None, cx_iv = []\<rparr>]\<rparr>,
      udata = [Cipher \<lparr>cipher_h = 1, cipher_out = NULL\<rparr>],
      calls = [Ev_cipher_open 7 3 0 1]\<rparr>"
  by (simp add: toy_cipher_opened_def lgcrypt_cipher_open_def toy_simps api_simps)

lemma toy_cipher_ready_eq:
  "toy_cipher_ready =
     \<lparr>env = ref_init\<lparr>rs_next := 1, rs_ciphers := [1 \<mapsto> \<lparr>cx_key = Some [90], cx_iv = [1, 2]\<rparr>]\<rparr>,
      udata = [Cipher \<lparr>cipher_h = 1, cipher_out = NULL\<rparr>],
      calls = [Ev_cipher_open 7 3 0 1, Ev_cipher_setkey 1 [90], Ev_cipher_setiv 1 [1, 2]]\<rparr>"
  by (simp add: toy_cipher_ready_def toy_cipher_opened_eq lgcrypt_cipher_setkey_def
        lgcrypt_cipher_setiv_def toy_simps api_simps)

lemma toy_hash_opened_eq:
  "toy_hash_opened =
     \<lparr>env = ref_init\<lparr>rs_next := 1,
            rs_mds := [1 \<mapsto> \<lparr>md_algo = 8, md_flags = 0, md_key = [], md_data = []\<rparr>]\<rparr>,
      udata = [Hash \<lparr>hash_h = 1\<rparr>],
      calls = [Ev_md_open 8 0 0 1]\<rparr>"
  by (simp add: toy_hash_opened_def lgcrypt_hash_open_def toy_simps api_simps)

lemma toy_hash_written_eq:
  "toy_hash_written =
     \<lparr>env = ref_init\<lparr>rs_next := 1,
            rs_mds := [1 \<mapsto> \<lparr>md_algo = 8, md_flags = 0, md_key = [], md_data = [1, 2, 3]\<rparr>]\<rparr>,
      udata = [Hash \<lparr>hash_h = 1\<rparr>],
      calls = [Ev_md_open 8 0 0 1, Ev_md_write 1 [1, 2, 3]]\<rparr>"
  by (simp add: toy_hash_written_def toy_hash_opened_eq lgcrypt_hash_write_def toy_simps api_simps)


section \<open>Module initialisation\<close>

text \<open>
  C6. \<^verbatim>\<open>init\<close> first asks the provider whether initialisation has finished. If the
  answer is yes it raises the error ``libgcrypt was already initialized'' (the spec's
  UsageError) and has made no other provider call. Otherwise it calls, in this order,
  the version check, the control that disables secure memory and the control that marks
  initialisation finished, each on the state the previous one left, and returns no
  value.
\<close>

theorem lgcrypt_init_spec:
  "(fst (gcry_control X (env L) GCRYCTL_INITIALIZATION_FINISHED_P) \<noteq> 0 \<longrightarrow>
      fst (lgcrypt_init X L args) = Raise (RuntimeError ''libgcrypt was already initialized'') \<and>
      calls (snd (lgcrypt_init X L args)) =
        calls L @ [Ev_control GCRYCTL_INITIALIZATION_FINISHED_P]) \<and>
   (fst (gcry_control X (env L) GCRYCTL_INITIALIZATION_FINISHED_P) = 0 \<longrightarrow>
      fst (lgcrypt_init X L args) = Return [] \<and>
      calls (snd (lgcrypt_init X L args)) =
        calls L @ [Ev_control GCRYCTL_INITIALIZATION_FINISHED_P, Ev_check_version,
                   Ev_control GCRYCTL_DISABLE_SECMEM, Ev_control GCRYCTL_INITIALIZATION_FINISHED] \<and>
      env (snd (lgcrypt_init X L args)) =
        snd (gcry_control X
          (snd (gcry_control X
             (gcry_check_version X (snd (gcry_control X (env L) GCRYCTL_INITIALIZATION_FINISHED_P)))
             GCRYCTL_DISABLE_SECMEM))
          GCRYCTL_INITIALIZATION_FINISHED))"
  by (simp add: lgcrypt_init_def record_call_def Let_def split: prod.splits)

theorem lgcrypt_init_spec_witness:
  "fst (lgcrypt_init toy lua_init []) = Return [] \<and>
   calls (snd (lgcrypt_init toy lua_init [])) =
     [Ev_control GCRYCTL_INITIALIZATION_FINISHED_P, Ev_check_version,
      Ev_control GCRYCTL_DISABLE_SECMEM, Ev_control GCRYCTL_INITIALIZATION_FINISHED] \<and>
   fst (lgcrypt_init toy (snd (lgcrypt_init toy lua_init [])) []) =
     Raise (RuntimeError ''libgcrypt was already initialized'') \<and>
   calls (snd (lgcrypt_init toy (snd (lgcrypt_init toy lua_init [])) [])) =
     [Ev_control GCRYCTL_INITIALIZATION_FINISHED_P, Ev_check_version,
      Ev_control GCRYCTL_DISABLE_SECMEM, Ev_control GCRYCTL_INITIALIZATION_FINISHED,
      Ev_control GCRYCTL_INITIALIZATION_FINISHED_P]"
proof -
  have first: "fst (gcry_control toy (env lua_init) GCRYCTL_INITIALIZATION_FINISHED_P) = 0"
    by (simp add: toy_def ref_externs_def ref_control_def lua_init_def ref_init_def)
  have env1: "env (snd (lgcrypt_init toy lua_init [])) =
      ref_init\<lparr>rs_version_checked := True, rs_secmem := False, rs_finished := True\<rparr>"
    using lgcrypt_init_spec [of toy lua_init "[]"] first
    by (simp add: toy_def ref_externs_def ref_control_def ref_check_version_def lua_init_def)
  have second: "fst (gcry_control toy (env (snd (lgcrypt_init toy lua_init [])))
      GCRYCTL_INITIALIZATION_FINISHED_P) \<noteq> 0"
    by (simp add: env1) (simp add: toy_def ref_externs_def ref_control_def)
  show ?thesis
    using lgcrypt_init_spec [of toy lua_init "[]"] first
      lgcrypt_init_spec [of toy "snd (lgcrypt_init toy lua_init [])" "[]"] second
    by (simp add: lua_init_def)
qed

section \<open>Encryption and decryption\<close>


lemma encrypt_unfold:
  assumes chk: "checkCipher L args 1 = Inr (r, state)"
    and str: "luaL_checklstring X args 2 = Inr inp"
    and mal: "gcry_malloc X (env L) (length inp) = (p, e1)"
    and enc: "gcry_cipher_encrypt X e1 (cipher_h state) p (length inp) inp = (err, e2)"
  shows "lgcrypt_cipher_encrypt X L args =
    (if p = NULL then
       (Raise (RuntimeError ''Failed to allocate memory for ciphertext''),
        \<lparr>env = e1, udata = (udata L)[r := Cipher (state\<lparr>cipher_out := NULL\<rparr>)],
         calls = calls L @ [Ev_malloc (length inp) NULL]\<rparr>)
     else if err \<noteq> GPG_ERR_NO_ERROR then
       (Raise (RuntimeError (''gcry_cipher_encrypt() failed with '' @ gcry_strerror X err)),
        \<lparr>env = gcry_free X e2 p, udata = (udata L)[r := Cipher (state\<lparr>cipher_out := NULL\<rparr>)],
         calls = calls L @ [Ev_malloc (length inp) p,
                            Ev_cipher_encrypt (cipher_h state) p (length inp) inp, Ev_free p]\<rparr>)
     else if lua_pushlstring_ok X e2 (read_bytes X e2 p (length inp)) then
       (Return [LString (read_bytes X e2 p (length inp))],
        \<lparr>env = gcry_free X e2 p, udata = (udata L)[r := Cipher (state\<lparr>cipher_out := NULL\<rparr>)],
         calls = calls L @ [Ev_malloc (length inp) p,
                            Ev_cipher_encrypt (cipher_h state) p (length inp) inp, Ev_free p]\<rparr>)
     else
       (Raise MemoryError,
        \<lparr>env = e2, udata = (udata L)[r := Cipher (state\<lparr>cipher_out := p\<rparr>)],
         calls = calls L @ [Ev_malloc (length inp) p,
                            Ev_cipher_encrypt (cipher_h state) p (length inp) inp]\<rparr>))"
  using assms
  by (simp add: lgcrypt_cipher_encrypt_def Let_def record_call_def set_cipher_def
        lua_pushlstring_def)

lemma decrypt_unfold:
  assumes chk: "checkCipher L args 1 = Inr (r, state)"
    and str: "luaL_checklstring X args 2 = Inr inp"
    and mal: "gcry_malloc X (env L) (length inp) = (p, e1)"
    and dec: "gcry_cipher_decrypt X e1 (cipher_h state) p (length inp) inp = (err, e2)"
  shows "lgcrypt_cipher_decrypt X L args =
    (if p = NULL then
       (Raise (RuntimeError ''Failed to allocate memory for plaintext''),
        \<lparr>env = e1, udata = (udata L)[r := Cipher (state\<lparr>cipher_out := NULL\<rparr>)],
         calls = calls L @ [Ev_malloc (length inp) NULL]\<rparr>)
     else if err \<noteq> GPG_ERR_NO_ERROR then
       (Raise (RuntimeError (''gcry_cipher_decrypt() failed with '' @ gcry_strerror X err)),
        \<lparr>env = gcry_free X e2 p, udata = (udata L)[r := Cipher (state\<lparr>cipher_out := NULL\<rparr>)],
         calls = calls L @ [Ev_malloc (length inp) p,
                            Ev_cipher_decrypt (cipher_h state) p (length inp) inp, Ev_free p]\<rparr>)
     else if lua_pushlstring_ok X e2 (read_bytes X e2 p (length inp)) then
       (Return [LString (read_bytes X e2 p (length inp))],
        \<lparr>env = gcry_free X e2 p, udata = (udata L)[r := Cipher (state\<lparr>cipher_out := NULL\<rparr>)],
         calls = calls L @ [Ev_malloc (length inp) p,
                            Ev_cipher_decrypt (cipher_h state) p (length inp) inp, Ev_free p]\<rparr>)
     else
       (Raise MemoryError,
        \<lparr>env = e2, udata = (udata L)[r := Cipher (state\<lparr>cipher_out := p\<rparr>)],
         calls = calls L @ [Ev_malloc (length inp) p,
                            Ev_cipher_decrypt (cipher_h state) p (length inp) inp]\<rparr>))"
  using assms
  by (simp add: lgcrypt_cipher_decrypt_def Let_def record_call_def set_cipher_def
        lua_pushlstring_def)

lemma cipher_gc_unfold:
  assumes chk: "checkCipher L args 1 = Inr (r, state)"
  shows "lgcrypt_cipher___gc X L args =
    (Return [],
     \<lparr>env = (let e1 = (if cipher_h state \<noteq> NULL then gcry_cipher_close X (env L) (cipher_h state)
                          else env L)
              in if cipher_out state \<noteq> NULL then gcry_free X e1 (cipher_out state) else e1),
      udata = udata L,
      calls = calls L @ (if cipher_h state \<noteq> NULL then [Ev_cipher_close (cipher_h state)] else [])
                      @ (if cipher_out state \<noteq> NULL then [Ev_free (cipher_out state)] else [])\<rparr>)"
  using assms
  by (simp add: lgcrypt_cipher___gc_def Let_def record_call_def)




lemma length_read_bytes: "length (read_bytes X e p n) = n"
  by (simp add: read_bytes_def)

text \<open>
  C4. Take a call of \<^verbatim>\<open>encrypt\<close> or \<^verbatim>\<open>decrypt\<close> whose arguments pass the checks,
  with input string \<open>inp\<close>. The first provider call is the allocation of exactly
  \<open>length inp\<close> bytes, and when it yields a buffer the second is the provider's
  encrypt (decrypt) of exactly \<open>inp\<close> into that buffer of that length. When the
  allocation, the provider and the host succeed, the call returns the \<open>length inp\<close>
  bytes read from the buffer; conversely, whenever it returns, allocation and provider
  have succeeded and the result is one string of the input's length. The binding adds
  no padding.
\<close>

theorem cipher_crypt_length:
  assumes chk: "checkCipher L args 1 = Inr (r, state)"
    and str: "luaL_checklstring X args 2 = Inr inp"
    and mal: "gcry_malloc X (env L) (length inp) = (p, e1)"
    and enc: "gcry_cipher_encrypt X e1 (cipher_h state) p (length inp) inp = (err, e2)"
    and dec: "gcry_cipher_decrypt X e1 (cipher_h state) p (length inp) inp = (err', e2')"
  shows
    "take (Suc (length (calls L))) (calls (snd (lgcrypt_cipher_encrypt X L args))) =
       calls L @ [Ev_malloc (length inp) p] \<and>
     take (Suc (length (calls L))) (calls (snd (lgcrypt_cipher_decrypt X L args))) =
       calls L @ [Ev_malloc (length inp) p] \<and>
     (p \<noteq> NULL \<longrightarrow>
        take (Suc (Suc (length (calls L)))) (calls (snd (lgcrypt_cipher_encrypt X L args))) =
          calls L @ [Ev_malloc (length inp) p, Ev_cipher_encrypt (cipher_h state) p (length inp) inp] \<and>
        take (Suc (Suc (length (calls L)))) (calls (snd (lgcrypt_cipher_decrypt X L args))) =
          calls L @ [Ev_malloc (length inp) p, Ev_cipher_decrypt (cipher_h state) p (length inp) inp]) \<and>
     (p \<noteq> NULL \<and> err = GPG_ERR_NO_ERROR \<and>
      lua_pushlstring_ok X e2 (read_bytes X e2 p (length inp)) \<longrightarrow>
        fst (lgcrypt_cipher_encrypt X L args) = Return [LString (read_bytes X e2 p (length inp))]) \<and>
     (p \<noteq> NULL \<and> err' = GPG_ERR_NO_ERROR \<and>
      lua_pushlstring_ok X e2' (read_bytes X e2' p (length inp)) \<longrightarrow>
        fst (lgcrypt_cipher_decrypt X L args) = Return [LString (read_bytes X e2' p (length inp))]) \<and>
     (fst (lgcrypt_cipher_encrypt X L args) = Return vs \<longrightarrow>
        p \<noteq> NULL \<and> err = GPG_ERR_NO_ERROR \<and>
        (\<exists>ct. vs = [LString ct] \<and> ct = read_bytes X e2 p (length inp) \<and> length ct = length inp)) \<and>
     (fst (lgcrypt_cipher_decrypt X L args) = Return vs' \<longrightarrow>
        p \<noteq> NULL \<and> err' = GPG_ERR_NO_ERROR \<and>
        (\<exists>pt. vs' = [LString pt] \<and> pt = read_bytes X e2' p (length inp) \<and> length pt = length inp))"
proof -
  note e = encrypt_unfold [OF chk str mal enc]
  note d = decrypt_unfold [OF chk str mal dec]
  have a1: "take (Suc (length (calls L))) (calls (snd (lgcrypt_cipher_encrypt X L args))) =
       calls L @ [Ev_malloc (length inp) p]"
    unfolding e by simp
  have a2: "take (Suc (length (calls L))) (calls (snd (lgcrypt_cipher_decrypt X L args))) =
       calls L @ [Ev_malloc (length inp) p]"
    unfolding d by simp
  have b: "p \<noteq> NULL \<longrightarrow>
        take (Suc (Suc (length (calls L)))) (calls (snd (lgcrypt_cipher_encrypt X L args))) =
          calls L @ [Ev_malloc (length inp) p, Ev_cipher_encrypt (cipher_h state) p (length inp) inp] \<and>
        take (Suc (Suc (length (calls L)))) (calls (snd (lgcrypt_cipher_decrypt X L args))) =
          calls L @ [Ev_malloc (length inp) p, Ev_cipher_decrypt (cipher_h state) p (length inp) inp]"
    unfolding e d by simp
  have c1: "p \<noteq> NULL \<and> err = GPG_ERR_NO_ERROR \<and>
      lua_pushlstring_ok X e2 (read_bytes X e2 p (length inp)) \<longrightarrow>
        fst (lgcrypt_cipher_encrypt X L args) = Return [LString (read_bytes X e2 p (length inp))]"
    unfolding e by simp
  have c2: "p \<noteq> NULL \<and> err' = GPG_ERR_NO_ERROR \<and>
      lua_pushlstring_ok X e2' (read_bytes X e2' p (length inp)) \<longrightarrow>
        fst (lgcrypt_cipher_decrypt X L args) = Return [LString (read_bytes X e2' p (length inp))]"
    unfolding d by simp
  have d1: "fst (lgcrypt_cipher_encrypt X L args) = Return vs \<longrightarrow>
        p \<noteq> NULL \<and> err = GPG_ERR_NO_ERROR \<and>
        (\<exists>ct. vs = [LString ct] \<and> ct = read_bytes X e2 p (length inp) \<and> length ct = length inp)"
    unfolding e by (auto simp: length_read_bytes split: if_splits)
  have d2: "fst (lgcrypt_cipher_decrypt X L args) = Return vs' \<longrightarrow>
        p \<noteq> NULL \<and> err' = GPG_ERR_NO_ERROR \<and>
        (\<exists>pt. vs' = [LString pt] \<and> pt = read_bytes X e2' p (length inp) \<and> length pt = length inp)"
    unfolding d by (auto simp: length_read_bytes split: if_splits)
  from a1 a2 b c1 c2 d1 d2 show ?thesis
    by blast
qed

text \<open>
  The theorem on the concrete instance: two bytes encrypted, and the result decrypted.
\<close>

theorem cipher_crypt_length_witness:
  "fst (lgcrypt_cipher_encrypt toy toy_cipher_ready [LUserdata 0, LString [1, 2]]) =
     Return [LString [91, 88]] \<and>
   length [91, 88 :: byte] = length [1, 2 :: byte] \<and>
   take 5 (calls (snd (lgcrypt_cipher_encrypt toy toy_cipher_ready [LUserdata 0, LString [1, 2]]))) =
     calls toy_cipher_ready @ [Ev_malloc 2 2, Ev_cipher_encrypt 1 2 2 [1, 2]] \<and>
   fst (lgcrypt_cipher_decrypt toy toy_cipher_ready [LUserdata 0, LString [91, 88]]) =
     Return [LString [1, 2]] \<and>
   take 5 (calls (snd (lgcrypt_cipher_decrypt toy toy_cipher_ready [LUserdata 0, LString [91, 88]]))) =
     calls toy_cipher_ready @ [Ev_malloc 2 2, Ev_cipher_decrypt 1 2 2 [91, 88]]"
proof -
  let ?st = "\<lparr>cipher_h = 1, cipher_out = NULL\<rparr>"
  let ?e1 = "env toy_cipher_ready\<lparr>rs_next := 2, rs_blocks := [2 \<mapsto> [0, 0]]\<rparr>"
  let ?ec = "env toy_cipher_ready\<lparr>rs_next := 2, rs_blocks := [2 \<mapsto> [91, 88]]\<rparr>"
  let ?ep = "env toy_cipher_ready\<lparr>rs_next := 2, rs_blocks := [2 \<mapsto> [1, 2]]\<rparr>"
  have chk: "checkCipher toy_cipher_ready (LUserdata 0 # rest) 1 = Inr (0, ?st)" for rest
    by (simp add: toy_cipher_ready_eq api_simps)
  have str: "luaL_checklstring toy [LUserdata 0, LString s] 2 = Inr s" for s
    by (simp add: api_simps)
  have mal: "gcry_malloc toy (env toy_cipher_ready) (length [a, b :: byte]) = (2, ?e1)" for a b
    by (simp add: toy_cipher_ready_eq toy_simps eval_nat_numeral)
  have len: "Suc (Suc (length (calls toy_cipher_ready))) = 5"
    by (simp add: toy_cipher_ready_eq)
  have two: "(2 :: ptr) \<noteq> NULL"
    by simp
  have enc:
    "fst (lgcrypt_cipher_encrypt toy toy_cipher_ready [LUserdata 0, LString [1, 2]]) =
       Return [LString [91, 88]] \<and>
     take 5 (calls (snd (lgcrypt_cipher_encrypt toy toy_cipher_ready [LUserdata 0, LString [1, 2]]))) =
       calls toy_cipher_ready @ [Ev_malloc 2 2, Ev_cipher_encrypt 1 2 2 [1, 2]]"
  proof -
    have e: "gcry_cipher_encrypt toy ?e1 (cipher_h ?st) 2 (length [1, 2 :: byte]) [1, 2] = (0, ?ec)"
      by (simp add: toy_cipher_ready_eq toy_simps)
    have d: "gcry_cipher_decrypt toy ?e1 (cipher_h ?st) 2 (length [1, 2 :: byte]) [1, 2] = (0, ?ec)"
      by (simp add: toy_cipher_ready_eq toy_simps)
    have rd: "read_bytes toy ?ec 2 (length [1, 2 :: byte]) = [91, 88]"
      by (simp add: toy_simps api_simps)
    have ok: "lua_pushlstring_ok toy ?ec [91, 88]"
      by (simp add: toy_simps)
    note T = cipher_crypt_length [OF chk str mal e d, where vs = "[LString [91, 88]]" and vs' = "[]"]
    from T rd ok two
    have r: "fst (lgcrypt_cipher_encrypt toy toy_cipher_ready [LUserdata 0, LString [1, 2]]) =
       Return [LString [91, 88]]"
      by simp
    from T two len
    have c: "take 5 (calls (snd (lgcrypt_cipher_encrypt toy toy_cipher_ready [LUserdata 0, LString [1, 2]]))) =
       calls toy_cipher_ready @ [Ev_malloc 2 2, Ev_cipher_encrypt 1 2 2 [1, 2]]"
      by simp
    from r c show ?thesis ..
  qed
  have dec:
    "fst (lgcrypt_cipher_decrypt toy toy_cipher_ready [LUserdata 0, LString [91, 88]]) =
       Return [LString [1, 2]] \<and>
     take 5 (calls (snd (lgcrypt_cipher_decrypt toy toy_cipher_ready [LUserdata 0, LString [91, 88]]))) =
       calls toy_cipher_ready @ [Ev_malloc 2 2, Ev_cipher_decrypt 1 2 2 [91, 88]]"
  proof -
    have e: "gcry_cipher_encrypt toy ?e1 (cipher_h ?st) 2 (length [91, 88 :: byte]) [91, 88] = (0, ?ep)"
      by (simp add: toy_cipher_ready_eq toy_simps)
    have d: "gcry_cipher_decrypt toy ?e1 (cipher_h ?st) 2 (length [91, 88 :: byte]) [91, 88] = (0, ?ep)"
      by (simp add: toy_cipher_ready_eq toy_simps)
    have rd: "read_bytes toy ?ep 2 (length [91, 88 :: byte]) = [1, 2]"
      by (simp add: toy_simps api_simps)
    have ok: "lua_pushlstring_ok toy ?ep [1, 2]"
      by (simp add: toy_simps)
    note T = cipher_crypt_length [OF chk str mal e d, where vs = "[]" and vs' = "[LString [1, 2]]"]
    from T rd ok two
    have r: "fst (lgcrypt_cipher_decrypt toy toy_cipher_ready [LUserdata 0, LString [91, 88]]) =
       Return [LString [1, 2]]"
      by simp
    from T two len
    have c: "take 5 (calls (snd (lgcrypt_cipher_decrypt toy toy_cipher_ready [LUserdata 0, LString [91, 88]]))) =
       calls toy_cipher_ready @ [Ev_malloc 2 2, Ev_cipher_decrypt 1 2 2 [91, 88]]"
      by simp
    from r c show ?thesis ..
  qed
  from enc dec show ?thesis
    by simp
qed

text \<open>
  C10. The first provider call of \<^verbatim>\<open>encrypt\<close> and of \<^verbatim>\<open>decrypt\<close> is the allocation
  of exactly the input's length, whatever that length is. For the empty input: if the
  allocator returns \<open>NULL\<close> for zero bytes, both raise their allocation error
  (the spec's ResourceError); if it returns a block and the provider and the host
  succeed, \<^verbatim>\<open>encrypt\<close> and \<^verbatim>\<open>decrypt\<close> return the empty string. The result for
  the empty input is decided by the allocator.
\<close>

theorem cipher_crypt_empty_input:
  assumes chk: "checkCipher L args 1 = Inr (r, state)"
    and str: "luaL_checklstring X args 2 = Inr inp"
  shows
    "take (Suc (length (calls L))) (calls (snd (lgcrypt_cipher_encrypt X L args))) =
       calls L @ [Ev_malloc (length inp) (fst (gcry_malloc X (env L) (length inp)))] \<and>
     take (Suc (length (calls L))) (calls (snd (lgcrypt_cipher_decrypt X L args))) =
       calls L @ [Ev_malloc (length inp) (fst (gcry_malloc X (env L) (length inp)))] \<and>
     (inp = [] \<and> fst (gcry_malloc X (env L) 0) = NULL \<longrightarrow>
        fst (lgcrypt_cipher_encrypt X L args) =
          Raise (RuntimeError ''Failed to allocate memory for ciphertext'') \<and>
        fst (lgcrypt_cipher_decrypt X L args) =
          Raise (RuntimeError ''Failed to allocate memory for plaintext'')) \<and>
     (inp = [] \<and> fst (gcry_malloc X (env L) 0) \<noteq> NULL \<and>
      fst (gcry_cipher_encrypt X (snd (gcry_malloc X (env L) 0)) (cipher_h state)
             (fst (gcry_malloc X (env L) 0)) 0 []) = GPG_ERR_NO_ERROR \<and>
      lua_pushlstring_ok X
        (snd (gcry_cipher_encrypt X (snd (gcry_malloc X (env L) 0)) (cipher_h state)
                (fst (gcry_malloc X (env L) 0)) 0 [])) [] \<longrightarrow>
        fst (lgcrypt_cipher_encrypt X L args) = Return [LString []]) \<and>
     (inp = [] \<and> fst (gcry_malloc X (env L) 0) \<noteq> NULL \<and>
      fst (gcry_cipher_decrypt X (snd (gcry_malloc X (env L) 0)) (cipher_h state)
             (fst (gcry_malloc X (env L) 0)) 0 []) = GPG_ERR_NO_ERROR \<and>
      lua_pushlstring_ok X
        (snd (gcry_cipher_decrypt X (snd (gcry_malloc X (env L) 0)) (cipher_h state)
                (fst (gcry_malloc X (env L) 0)) 0 [])) [] \<longrightarrow>
        fst (lgcrypt_cipher_decrypt X L args) = Return [LString []])"
proof -
  obtain p e1 where mal: "gcry_malloc X (env L) (length inp) = (p, e1)"
    by (cases "gcry_malloc X (env L) (length inp)")
  obtain err e2 where enc: "gcry_cipher_encrypt X e1 (cipher_h state) p (length inp) inp = (err, e2)"
    by (cases "gcry_cipher_encrypt X e1 (cipher_h state) p (length inp) inp")
  obtain err' e2' where dec: "gcry_cipher_decrypt X e1 (cipher_h state) p (length inp) inp = (err', e2')"
    by (cases "gcry_cipher_decrypt X e1 (cipher_h state) p (length inp) inp")
  note e = encrypt_unfold [OF chk str mal enc]
  note d = decrypt_unfold [OF chk str mal dec]
  have first_e: "take (Suc (length (calls L))) (calls (snd (lgcrypt_cipher_encrypt X L args))) =
       calls L @ [Ev_malloc (length inp) (fst (gcry_malloc X (env L) (length inp)))]"
    unfolding e mal by simp
  have first_d: "take (Suc (length (calls L))) (calls (snd (lgcrypt_cipher_decrypt X L args))) =
       calls L @ [Ev_malloc (length inp) (fst (gcry_malloc X (env L) (length inp)))]"
    unfolding d mal by simp
  have null: "inp = [] \<and> fst (gcry_malloc X (env L) 0) = NULL \<longrightarrow>
        fst (lgcrypt_cipher_encrypt X L args) =
          Raise (RuntimeError ''Failed to allocate memory for ciphertext'') \<and>
        fst (lgcrypt_cipher_decrypt X L args) =
          Raise (RuntimeError ''Failed to allocate memory for plaintext'')"
    using mal unfolding e d by auto
  have nonnull: "inp = [] \<and> fst (gcry_malloc X (env L) 0) \<noteq> NULL \<and>
      fst (gcry_cipher_encrypt X (snd (gcry_malloc X (env L) 0)) (cipher_h state)
             (fst (gcry_malloc X (env L) 0)) 0 []) = GPG_ERR_NO_ERROR \<and>
      lua_pushlstring_ok X
        (snd (gcry_cipher_encrypt X (snd (gcry_malloc X (env L) 0)) (cipher_h state)
                (fst (gcry_malloc X (env L) 0)) 0 [])) [] \<longrightarrow>
        fst (lgcrypt_cipher_encrypt X L args) = Return [LString []]"
    using mal enc unfolding e by (auto simp: read_bytes_def)
  have nonnull_d: "inp = [] \<and> fst (gcry_malloc X (env L) 0) \<noteq> NULL \<and>
      fst (gcry_cipher_decrypt X (snd (gcry_malloc X (env L) 0)) (cipher_h state)
             (fst (gcry_malloc X (env L) 0)) 0 []) = GPG_ERR_NO_ERROR \<and>
      lua_pushlstring_ok X
        (snd (gcry_cipher_decrypt X (snd (gcry_malloc X (env L) 0)) (cipher_h state)
                (fst (gcry_malloc X (env L) 0)) 0 [])) [] \<longrightarrow>
        fst (lgcrypt_cipher_decrypt X L args) = Return [LString []]"
    using mal dec unfolding d by (auto simp: read_bytes_def)
  from first_e first_d null nonnull nonnull_d show ?thesis
    by blast
qed

text \<open>The theorem on the concrete instance, whose allocator refuses zero bytes.\<close>

theorem cipher_crypt_empty_input_witness:
  "checkCipher toy_cipher_ready [LUserdata 0, LString []] 1 =
     Inr (0, \<lparr>cipher_h = 1, cipher_out = NULL\<rparr>) \<and>
   fst (gcry_malloc toy (env toy_cipher_ready) 0) = NULL \<and>
   fst (lgcrypt_cipher_encrypt toy toy_cipher_ready [LUserdata 0, LString []]) =
     Raise (RuntimeError ''Failed to allocate memory for ciphertext'') \<and>
   fst (lgcrypt_cipher_decrypt toy toy_cipher_ready [LUserdata 0, LString []]) =
     Raise (RuntimeError ''Failed to allocate memory for plaintext'') \<and>
   take 4 (calls (snd (lgcrypt_cipher_encrypt toy toy_cipher_ready [LUserdata 0, LString []]))) =
     calls toy_cipher_ready @ [Ev_malloc 0 NULL]"
proof -
  have chk: "checkCipher toy_cipher_ready [LUserdata 0, LString []] 1 =
      Inr (0, \<lparr>cipher_h = 1, cipher_out = NULL\<rparr>)"
    by (simp add: toy_cipher_ready_eq api_simps)
  have str: "luaL_checklstring toy [LUserdata 0, LString []] 2 = Inr []"
    by (simp add: api_simps)
  have mal: "fst (gcry_malloc toy (env toy_cipher_ready) 0) = NULL"
    by (simp add: toy_simps)
  have len: "Suc (length (calls toy_cipher_ready)) = 4"
    by (simp add: toy_cipher_ready_eq)
  from cipher_crypt_empty_input [OF chk str] chk mal len
  show ?thesis
    by simp
qed

text \<open>
  C7, at the input where the code departs from it. On the concrete instance a handle is
  opened and given a key and an IV, all three calls returning normally. Two bytes go
  through \<^verbatim>\<open>encrypt\<close> and \<^verbatim>\<open>decrypt\<close> and come back. The empty plaintext, whose
  length is a multiple of every block size, does not: \<^verbatim>\<open>encrypt\<close> raises its
  allocation error before the provider's cipher is called, and so does \<^verbatim>\<open>decrypt\<close>.
\<close>

theorem cipher_roundtrip_empty_plaintext:
  "fst (lgcrypt_cipher_open toy lua_init [LNumber 7, LNumber 3]) = Return [LUserdata 0] \<and>
   fst (lgcrypt_cipher_setkey toy toy_cipher_opened [LUserdata 0, LString [90]]) = Return [] \<and>
   fst (lgcrypt_cipher_setiv toy
          (snd (lgcrypt_cipher_setkey toy toy_cipher_opened [LUserdata 0, LString [90]]))
          [LUserdata 0, LString [1, 2]]) = Return [] \<and>
   fst (lgcrypt_cipher_encrypt toy toy_cipher_ready [LUserdata 0, LString [1, 2]]) =
     Return [LString [91, 88]] \<and>
   fst (lgcrypt_cipher_decrypt toy toy_cipher_ready [LUserdata 0, LString [91, 88]]) =
     Return [LString [1, 2]] \<and>
   fst (lgcrypt_cipher_encrypt toy toy_cipher_ready [LUserdata 0, LString []]) =
     Raise (RuntimeError ''Failed to allocate memory for ciphertext'') \<and>
   fst (lgcrypt_cipher_decrypt toy toy_cipher_ready [LUserdata 0, LString []]) =
     Raise (RuntimeError ''Failed to allocate memory for plaintext'')"
  by (simp add: toy_cipher_opened_eq toy_cipher_ready_eq lgcrypt_cipher_open_def
        lgcrypt_cipher_setkey_def lgcrypt_cipher_setiv_def lgcrypt_cipher_encrypt_def
        lgcrypt_cipher_decrypt_def toy_simps api_simps)

section \<open>Constructors\<close>

lemma hash_gc_unfold:
  assumes chk: "checkHash L args 1 = Inr (r, state)"
  shows "lgcrypt_hash___gc X L args =
    (Return [],
     \<lparr>env = (if hash_h state \<noteq> NULL then gcry_md_close X (env L) (hash_h state) else env L),
      udata = udata L,
      calls = calls L @ (if hash_h state \<noteq> NULL then [Ev_md_close (hash_h state)] else [])\<rparr>)"
  using assms
  by (simp add: lgcrypt_hash___gc_def Let_def record_call_def)

lemma cipher_open_unfold:
  assumes a1: "luaL_checkint X args 1 = Inr algo"
    and a2: "luaL_checkint X args 2 = Inr mode"
    and mem: "lua_newuserdata_ok X (env L)"
    and opn: "gcry_cipher_open X (env L) NULL algo mode 0 = (err, h, e')"
  shows "lgcrypt_cipher_open X L args =
    (if err \<noteq> GPG_ERR_NO_ERROR
     then Raise (RuntimeError (''gcry_cipher_open() failed with '' @ gcry_strerror X err))
     else Return [LUserdata (length (udata L))],
     \<lparr>env = e', udata = udata L @ [Cipher \<lparr>cipher_h = h, cipher_out = NULL\<rparr>],
      calls = calls L @ [Ev_cipher_open algo mode err h]\<rparr>)"
  using assms
  by (simp add: lgcrypt_cipher_open_def lgcrypt_cipher_new_def set_cipher_def record_call_def Let_def)

lemma hash_open_unfold:
  assumes a1: "luaL_checkint X args 1 = Inr algo"
    and a2: "luaL_optinteger X args 2 0 = Inr fl"
    and mem: "lua_newuserdata_ok X (env L)"
    and opn: "gcry_md_open X (env L) NULL algo (of_int fl) = (err, h, e')"
  shows "lgcrypt_hash_open X L args =
    (if err \<noteq> GPG_ERR_NO_ERROR
     then Raise (RuntimeError (''gcry_md_open() failed with '' @ gcry_strerror X err))
     else Return [LUserdata (length (udata L))],
     \<lparr>env = e', udata = udata L @ [Hash \<lparr>hash_h = h\<rparr>],
      calls = calls L @ [Ev_md_open algo (of_int fl) err h]\<rparr>)"
  using assms
  by (simp add: lgcrypt_hash_open_def lgcrypt_hash_new_def set_hash_def record_call_def Let_def)

lemma checkCipher_last:
  "udata M = us @ [Cipher c] \<Longrightarrow> checkCipher M [LUserdata (length us)] 1 = Inr (length us, c)"
  by (simp add: checkCipher_def stack_at_def)

lemma checkHash_last:
  "udata M = us @ [Hash c] \<Longrightarrow> checkHash M [LUserdata (length us)] 1 = Inr (length us, c)"
  by (simp add: checkHash_def stack_at_def)

text \<open>
  C3. Take a call of the constructor \<^verbatim>\<open>Cipher\<close> with an algorithm and a mode, and a
  call of the constructor \<^verbatim>\<open>Hash\<close> with an algorithm and, optionally, flags (absent
  or nil flags are 0), for which the host allocates the userdata, so that the provider's
  open is reached. The open is handed the new userdata's handle slot, which holds
  \<open>NULL\<close> because the constructor cleared it. Let the provider, when an open fails,
  leave the caller's slot as it found it or store \<open>NULL\<close> in it. If the open fails,
  the constructor raises the provider's error (the spec's ProviderError) and returns no
  handle; the new userdata stays behind with \<open>NULL\<close> fields, and running the finalizer
  on it changes nothing and calls nothing. If the open succeeds, the constructor returns
  the new userdata, whose native field is the handle the provider stored. Either way the
  open is the one provider call made.
\<close>

theorem constructor_open_outcomes:
  assumes ca1: "luaL_checkint X cargs 1 = Inr calgo"
    and ca2: "luaL_checkint X cargs 2 = Inr mode"
    and ha1: "luaL_checkint X hargs 1 = Inr halgo"
    and ha2: "luaL_optinteger X hargs 2 0 = Inr fl"
    and mem: "lua_newuserdata_ok X (env L)"
    and copn: "gcry_cipher_open X (env L) NULL calgo mode 0 = (cerr, ch, ce)"
    and mopn: "gcry_md_open X (env L) NULL halgo (of_int fl) = (merr, mh, me)"
    and cslot: "\<forall>h0. fst (gcry_cipher_open X (env L) h0 calgo mode 0) \<noteq> GPG_ERR_NO_ERROR \<longrightarrow>
                  fst (snd (gcry_cipher_open X (env L) h0 calgo mode 0)) \<in> {h0, NULL}"
    and mslot: "\<forall>h0. fst (gcry_md_open X (env L) h0 halgo (of_int fl)) \<noteq> GPG_ERR_NO_ERROR \<longrightarrow>
                  fst (snd (gcry_md_open X (env L) h0 halgo (of_int fl))) \<in> {h0, NULL}"
    and cres: "lgcrypt_cipher_open X L cargs = (res, L')"
    and mres: "lgcrypt_hash_open X L hargs = (res', L'')"
  shows
    "(cerr \<noteq> GPG_ERR_NO_ERROR \<longrightarrow>
        res = Raise (RuntimeError (''gcry_cipher_open() failed with '' @ gcry_strerror X cerr)) \<and>
        returned_handles res = [] \<and>
        udata L' = udata L @ [Cipher \<lparr>cipher_h = NULL, cipher_out = NULL\<rparr>] \<and>
        lgcrypt_cipher___gc X L' [LUserdata (length (udata L))] = (Return [], L')) \<and>
     (cerr = GPG_ERR_NO_ERROR \<longrightarrow>
        res = Return [LUserdata (length (udata L))] \<and>
        udata L' = udata L @ [Cipher \<lparr>cipher_h = ch, cipher_out = NULL\<rparr>] \<and>
        env L' = ce) \<and>
     calls L' = calls L @ [Ev_cipher_open calgo mode cerr ch] \<and>
     (merr \<noteq> GPG_ERR_NO_ERROR \<longrightarrow>
        res' = Raise (RuntimeError (''gcry_md_open() failed with '' @ gcry_strerror X merr)) \<and>
        returned_handles res' = [] \<and>
        udata L'' = udata L @ [Hash \<lparr>hash_h = NULL\<rparr>] \<and>
        lgcrypt_hash___gc X L'' [LUserdata (length (udata L))] = (Return [], L'')) \<and>
     (merr = GPG_ERR_NO_ERROR \<longrightarrow>
        res' = Return [LUserdata (length (udata L))] \<and>
        udata L'' = udata L @ [Hash \<lparr>hash_h = mh\<rparr>] \<and>
        env L'' = me) \<and>
     calls L'' = calls L @ [Ev_md_open halgo (of_int fl) merr mh]"
proof -
  note c = cipher_open_unfold [OF ca1 ca2 mem copn, unfolded cres]
  note m = hash_open_unfold [OF ha1 ha2 mem mopn, unfolded mres]
  have cfail: "cerr \<noteq> GPG_ERR_NO_ERROR \<longrightarrow>
        res = Raise (RuntimeError (''gcry_cipher_open() failed with '' @ gcry_strerror X cerr)) \<and>
        returned_handles res = [] \<and>
        udata L' = udata L @ [Cipher \<lparr>cipher_h = NULL, cipher_out = NULL\<rparr>] \<and>
        lgcrypt_cipher___gc X L' [LUserdata (length (udata L))] = (Return [], L')"
  proof
    assume f: "cerr \<noteq> GPG_ERR_NO_ERROR"
    from cslot [rule_format, of NULL] f copn have z: "ch = NULL" by simp
    from c f z have u: "udata L' = udata L @ [Cipher \<lparr>cipher_h = NULL, cipher_out = NULL\<rparr>]"
      by auto
    from c f cipher_gc_unfold [OF checkCipher_last [OF u], of X] u
    show "res = Raise (RuntimeError (''gcry_cipher_open() failed with '' @ gcry_strerror X cerr)) \<and>
        returned_handles res = [] \<and>
        udata L' = udata L @ [Cipher \<lparr>cipher_h = NULL, cipher_out = NULL\<rparr>] \<and>
        lgcrypt_cipher___gc X L' [LUserdata (length (udata L))] = (Return [], L')"
      by (auto simp: returned_handles_def)
  qed
  have cok: "cerr = GPG_ERR_NO_ERROR \<longrightarrow>
        res = Return [LUserdata (length (udata L))] \<and>
        udata L' = udata L @ [Cipher \<lparr>cipher_h = ch, cipher_out = NULL\<rparr>] \<and>
        env L' = ce"
    using c by auto
  have ccalls: "calls L' = calls L @ [Ev_cipher_open calgo mode cerr ch]"
    using c by auto
  have mfail: "merr \<noteq> GPG_ERR_NO_ERROR \<longrightarrow>
        res' = Raise (RuntimeError (''gcry_md_open() failed with '' @ gcry_strerror X merr)) \<and>
        returned_handles res' = [] \<and>
        udata L'' = udata L @ [Hash \<lparr>hash_h = NULL\<rparr>] \<and>
        lgcrypt_hash___gc X L'' [LUserdata (length (udata L))] = (Return [], L'')"
  proof
    assume f: "merr \<noteq> GPG_ERR_NO_ERROR"
    from mslot [rule_format, of NULL] f mopn have z: "mh = NULL" by simp
    from m f z have u: "udata L'' = udata L @ [Hash \<lparr>hash_h = NULL\<rparr>]"
      by auto
    from m f hash_gc_unfold [OF checkHash_last [OF u], of X] u
    show "res' = Raise (RuntimeError (''gcry_md_open() failed with '' @ gcry_strerror X merr)) \<and>
        returned_handles res' = [] \<and>
        udata L'' = udata L @ [Hash \<lparr>hash_h = NULL\<rparr>] \<and>
        lgcrypt_hash___gc X L'' [LUserdata (length (udata L))] = (Return [], L'')"
      by (auto simp: returned_handles_def)
  qed
  have mok: "merr = GPG_ERR_NO_ERROR \<longrightarrow>
        res' = Return [LUserdata (length (udata L))] \<and>
        udata L'' = udata L @ [Hash \<lparr>hash_h = mh\<rparr>] \<and>
        env L'' = me"
    using m by auto
  have mcalls: "calls L'' = calls L @ [Ev_md_open halgo (of_int fl) merr mh]"
    using m by auto
  from cfail cok ccalls mfail mok mcalls show ?thesis
    by blast
qed

text \<open>
  The theorem on the concrete instance, which knows no algorithm 1: failing opens by
  \<^verbatim>\<open>Cipher(1, 3)\<close> and \<^verbatim>\<open>Hash(1)\<close>, successful ones by \<^verbatim>\<open>Cipher(7, 3)\<close> and
  \<^verbatim>\<open>Hash(8, nil)\<close>.
\<close>

theorem constructor_open_outcomes_witness:
  "fst (lgcrypt_cipher_open toy lua_init [LNumber 1, LNumber 3]) =
     Raise (RuntimeError ''gcry_cipher_open() failed with Invalid cipher algorithm'') \<and>
   udata (snd (lgcrypt_cipher_open toy lua_init [LNumber 1, LNumber 3])) =
     [Cipher \<lparr>cipher_h = NULL, cipher_out = NULL\<rparr>] \<and>
   lgcrypt_cipher___gc toy (snd (lgcrypt_cipher_open toy lua_init [LNumber 1, LNumber 3]))
     [LUserdata 0] = (Return [], snd (lgcrypt_cipher_open toy lua_init [LNumber 1, LNumber 3])) \<and>
   fst (lgcrypt_hash_open toy lua_init [LNumber 1]) =
     Raise (RuntimeError ''gcry_md_open() failed with Invalid digest algorithm'') \<and>
   udata (snd (lgcrypt_hash_open toy lua_init [LNumber 1])) = [Hash \<lparr>hash_h = NULL\<rparr>] \<and>
   lgcrypt_hash___gc toy (snd (lgcrypt_hash_open toy lua_init [LNumber 1]))
     [LUserdata 0] = (Return [], snd (lgcrypt_hash_open toy lua_init [LNumber 1])) \<and>
   fst (lgcrypt_cipher_open toy lua_init [LNumber 7, LNumber 3]) = Return [LUserdata 0] \<and>
   udata (snd (lgcrypt_cipher_open toy lua_init [LNumber 7, LNumber 3])) =
     [Cipher \<lparr>cipher_h = 1, cipher_out = NULL\<rparr>] \<and>
   fst (lgcrypt_hash_open toy lua_init [LNumber 8, LNil]) = Return [LUserdata 0] \<and>
   udata (snd (lgcrypt_hash_open toy lua_init [LNumber 8, LNil])) = [Hash \<lparr>hash_h = 1\<rparr>] \<and>
   calls (snd (lgcrypt_hash_open toy lua_init [LNumber 8, LNil])) = [Ev_md_open 8 0 0 1]"
proof -
  have mem: "lua_newuserdata_ok toy (env lua_init)"
    by (simp add: toy_simps)
  have len: "length (udata lua_init) = 0" "udata lua_init = []" "calls lua_init = []"
    by (simp_all add: lua_init_def)
  have s12: "gcry_strerror toy 12 = ''Invalid cipher algorithm''"
    by (simp add: toy_simps)
  have s5: "gcry_strerror toy 5 = ''Invalid digest algorithm''"
    by (simp add: toy_simps)
  have cslot: "\<forall>h0. fst (gcry_cipher_open toy (env lua_init) h0 a m 0) \<noteq> GPG_ERR_NO_ERROR \<longrightarrow>
      fst (snd (gcry_cipher_open toy (env lua_init) h0 a m 0)) \<in> {h0, NULL}" for a m
    by (simp add: toy_simps)
  have mslot: "\<forall>h0. fst (gcry_md_open toy (env lua_init) h0 a f) \<noteq> GPG_ERR_NO_ERROR \<longrightarrow>
      fst (snd (gcry_md_open toy (env lua_init) h0 a f)) \<in> {h0, NULL}" for a f
    by (simp add: toy_simps)
  have fail:
    "fst (lgcrypt_cipher_open toy lua_init [LNumber 1, LNumber 3]) =
       Raise (RuntimeError ''gcry_cipher_open() failed with Invalid cipher algorithm'') \<and>
     udata (snd (lgcrypt_cipher_open toy lua_init [LNumber 1, LNumber 3])) =
       [Cipher \<lparr>cipher_h = NULL, cipher_out = NULL\<rparr>] \<and>
     lgcrypt_cipher___gc toy (snd (lgcrypt_cipher_open toy lua_init [LNumber 1, LNumber 3]))
       [LUserdata 0] = (Return [], snd (lgcrypt_cipher_open toy lua_init [LNumber 1, LNumber 3])) \<and>
     fst (lgcrypt_hash_open toy lua_init [LNumber 1]) =
       Raise (RuntimeError ''gcry_md_open() failed with Invalid digest algorithm'') \<and>
     udata (snd (lgcrypt_hash_open toy lua_init [LNumber 1])) = [Hash \<lparr>hash_h = NULL\<rparr>] \<and>
     lgcrypt_hash___gc toy (snd (lgcrypt_hash_open toy lua_init [LNumber 1]))
       [LUserdata 0] = (Return [], snd (lgcrypt_hash_open toy lua_init [LNumber 1]))"
  proof -
    have ca1: "luaL_checkint toy [LNumber 1, LNumber 3] 1 = Inr 1"
      by (simp add: api_simps)
    have ca2: "luaL_checkint toy [LNumber 1, LNumber 3] 2 = Inr 3"
      by (simp add: api_simps)
    have ha1: "luaL_checkint toy [LNumber 1] 1 = Inr 1"
      by (simp add: api_simps)
    have ha2: "luaL_optinteger toy [LNumber 1] 2 0 = Inr 0"
      by (simp add: api_simps)
    have copn: "gcry_cipher_open toy (env lua_init) NULL 1 3 0 = (12, NULL, env lua_init)"
      by (simp add: toy_simps)
    have mopn: "gcry_md_open toy (env lua_init) NULL 1 (of_int 0) = (5, NULL, env lua_init)"
      by (simp add: toy_simps)
    from constructor_open_outcomes [OF ca1 ca2 ha1 ha2 mem copn mopn cslot mslot
        surjective_pairing surjective_pairing] s12 s5 len
    show ?thesis
      by simp
  qed
  have ok:
    "fst (lgcrypt_cipher_open toy lua_init [LNumber 7, LNumber 3]) = Return [LUserdata 0] \<and>
     udata (snd (lgcrypt_cipher_open toy lua_init [LNumber 7, LNumber 3])) =
       [Cipher \<lparr>cipher_h = 1, cipher_out = NULL\<rparr>] \<and>
     fst (lgcrypt_hash_open toy lua_init [LNumber 8, LNil]) = Return [LUserdata 0] \<and>
     udata (snd (lgcrypt_hash_open toy lua_init [LNumber 8, LNil])) = [Hash \<lparr>hash_h = 1\<rparr>] \<and>
     calls (snd (lgcrypt_hash_open toy lua_init [LNumber 8, LNil])) = [Ev_md_open 8 0 0 1]"
  proof -
    have ca1: "luaL_checkint toy [LNumber 7, LNumber 3] 1 = Inr 7"
      by (simp add: api_simps)
    have ca2: "luaL_checkint toy [LNumber 7, LNumber 3] 2 = Inr 3"
      by (simp add: api_simps)
    have ha1: "luaL_checkint toy [LNumber 8, LNil] 1 = Inr 8"
      by (simp add: api_simps)
    have ha2: "luaL_optinteger toy [LNumber 8, LNil] 2 0 = Inr 0"
      by (simp add: api_simps)
    have copn: "gcry_cipher_open toy (env lua_init) NULL 7 3 0 =
        (0, 1, ref_init\<lparr>rs_next := 1, rs_ciphers := [1 \<mapsto> \<lparr>cx_key = None, cx_iv = []\<rparr>]\<rparr>)"
      by (simp add: toy_simps)
    have mopn: "gcry_md_open toy (env lua_init) NULL 8 (of_int 0) =
        (0, 1, ref_init\<lparr>rs_next := 1,
                 rs_mds := [1 \<mapsto> \<lparr>md_algo = 8, md_flags = 0, md_key = [], md_data = []\<rparr>]\<rparr>)"
      by (simp add: toy_simps)
    from constructor_open_outcomes [OF ca1 ca2 ha1 ha2 mem copn mopn cslot mslot
        surjective_pairing surjective_pairing] len
    show ?thesis
      by simp
  qed
  from fail ok show ?thesis
    by blast
qed

section \<open>Reading a digest\<close>

lemma hash_read_unfold:
  assumes chk: "checkHash L args 1 = Inr (r, state)"
    and opt: "luaL_optinteger X args 2 (sint (gcry_md_get_algo X (env L) (hash_h state))) = Inr a"
    and rd: "gcry_md_read X (env L) (hash_h state) (of_int a) = (digest, e')"
  shows "lgcrypt_hash_read X L args =
    (if gcry_md_is_enabled X (env L) (hash_h state) (of_int a) = 0 then
       (Raise (RuntimeError ''Unable to obtain digest for a disabled algorithm''),
        L\<lparr>calls := calls L @ [Ev_md_get_algo (hash_h state),
                               Ev_md_is_enabled (hash_h state) (of_int a)]\<rparr>)
     else if gcry_md_get_algo_dlen X (of_int a) = 0 then
       (Raise (RuntimeError ''Invalid digest length detected''),
        L\<lparr>calls := calls L @ [Ev_md_get_algo (hash_h state),
                               Ev_md_is_enabled (hash_h state) (of_int a),
                               Ev_md_get_algo_dlen (of_int a)]\<rparr>)
     else if digest = NULL then
       (Raise (RuntimeError ''Failed to obtain digest''),
        L\<lparr>env := e',
          calls := calls L @ [Ev_md_get_algo (hash_h state),
                               Ev_md_is_enabled (hash_h state) (of_int a),
                               Ev_md_get_algo_dlen (of_int a),
                               Ev_md_read (hash_h state) (of_int a)]\<rparr>)
     else
       (if lua_pushlstring_ok X e' (read_bytes X e' digest (unat (gcry_md_get_algo_dlen X (of_int a))))
        then Return [LString (read_bytes X e' digest (unat (gcry_md_get_algo_dlen X (of_int a))))]
        else Raise MemoryError,
        L\<lparr>env := e',
          calls := calls L @ [Ev_md_get_algo (hash_h state),
                               Ev_md_is_enabled (hash_h state) (of_int a),
                               Ev_md_get_algo_dlen (of_int a),
                               Ev_md_read (hash_h state) (of_int a)]\<rparr>))"
  using assms
  by (simp add: lgcrypt_hash_read_def Let_def record_call_def lua_pushlstring_def unat_eq_0)

text \<open>
  C5, as amended. Take a \<^verbatim>\<open>read\<close> call whose arguments pass the checks. Without a
  second argument (or with nil) the algorithm is the one \<^verbatim>\<open>gcry_md_get_algo\<close> reports
  for the handle. If the algorithm is not enabled on the handle, the call raises ``Unable
  to obtain digest for a disabled algorithm'' (the spec's UsageError). If the provider's
  digest length is zero it raises ``Invalid digest length detected'', and if the
  provider's digest buffer is \<open>NULL\<close> it raises ``Failed to obtain digest'' (the spec's
  InternalError). Otherwise the first bytes of the provider's buffer, as many as the
  algorithm's digest length, are copied into a new string of the host: when the host
  builds the string the call returns it, and when the host cannot, the call raises the
  host's memory error. No path frees a buffer or closes a context, and no userdata
  changes.
\<close>

theorem hash_read_outcomes:
  assumes chk: "checkHash L args 1 = Inr (r, state)"
    and opt: "luaL_optinteger X args 2 (sint (gcry_md_get_algo X (env L) (hash_h state))) = Inr a"
    and alg: "algo = (of_int a :: c_int)"
    and rd: "gcry_md_read X (env L) (hash_h state) algo = (digest, e')"
    and res: "lgcrypt_hash_read X L args = (res, L')"
  shows
    "(stack_at args 2 = None \<or> stack_at args 2 = Some LNil \<longrightarrow>
        algo = gcry_md_get_algo X (env L) (hash_h state)) \<and>
     (gcry_md_is_enabled X (env L) (hash_h state) algo = 0 \<longrightarrow>
        res = Raise (RuntimeError ''Unable to obtain digest for a disabled algorithm'')) \<and>
     (gcry_md_is_enabled X (env L) (hash_h state) algo \<noteq> 0 \<and>
      gcry_md_get_algo_dlen X algo = 0 \<longrightarrow>
        res = Raise (RuntimeError ''Invalid digest length detected'')) \<and>
     (gcry_md_is_enabled X (env L) (hash_h state) algo \<noteq> 0 \<and>
      gcry_md_get_algo_dlen X algo \<noteq> 0 \<and> digest = NULL \<longrightarrow>
        res = Raise (RuntimeError ''Failed to obtain digest'')) \<and>
     (gcry_md_is_enabled X (env L) (hash_h state) algo \<noteq> 0 \<and>
      gcry_md_get_algo_dlen X algo \<noteq> 0 \<and> digest \<noteq> NULL \<and>
      lua_pushlstring_ok X e' (read_bytes X e' digest (unat (gcry_md_get_algo_dlen X algo))) \<longrightarrow>
        res = Return [LString (read_bytes X e' digest (unat (gcry_md_get_algo_dlen X algo)))] \<and>
        length (read_bytes X e' digest (unat (gcry_md_get_algo_dlen X algo))) =
          unat (gcry_md_get_algo_dlen X algo) \<and>
        env L' = e' \<and>
        calls L' = calls L @ [Ev_md_get_algo (hash_h state), Ev_md_is_enabled (hash_h state) algo,
                              Ev_md_get_algo_dlen algo, Ev_md_read (hash_h state) algo]) \<and>
     (gcry_md_is_enabled X (env L) (hash_h state) algo \<noteq> 0 \<and>
      gcry_md_get_algo_dlen X algo \<noteq> 0 \<and> digest \<noteq> NULL \<and>
      \<not> lua_pushlstring_ok X e' (read_bytes X e' digest (unat (gcry_md_get_algo_dlen X algo))) \<longrightarrow>
        res = Raise MemoryError \<and>
        env L' = e' \<and>
        calls L' = calls L @ [Ev_md_get_algo (hash_h state), Ev_md_is_enabled (hash_h state) algo,
                              Ev_md_get_algo_dlen algo, Ev_md_read (hash_h state) algo]) \<and>
     (\<forall>p. Ev_free p \<notin> set (drop (length (calls L)) (calls L')) \<and>
          Ev_md_close p \<notin> set (drop (length (calls L)) (calls L'))) \<and>
     udata L' = udata L"
proof -
  note u = hash_read_unfold [OF chk opt rd [unfolded alg], folded alg, unfolded res]
  have dflt: "stack_at args 2 = None \<or> stack_at args 2 = Some LNil \<longrightarrow>
        algo = gcry_md_get_algo X (env L) (hash_h state)"
    using opt alg by (auto simp: luaL_optinteger_def)
  have dis: "gcry_md_is_enabled X (env L) (hash_h state) algo = 0 \<longrightarrow>
        res = Raise (RuntimeError ''Unable to obtain digest for a disabled algorithm'')"
    using u by auto
  have len0: "gcry_md_is_enabled X (env L) (hash_h state) algo \<noteq> 0 \<and>
      gcry_md_get_algo_dlen X algo = 0 \<longrightarrow>
        res = Raise (RuntimeError ''Invalid digest length detected'')"
    using u by auto
  have nul: "gcry_md_is_enabled X (env L) (hash_h state) algo \<noteq> 0 \<and>
      gcry_md_get_algo_dlen X algo \<noteq> 0 \<and> digest = NULL \<longrightarrow>
        res = Raise (RuntimeError ''Failed to obtain digest'')"
    using u by auto
  have ret: "gcry_md_is_enabled X (env L) (hash_h state) algo \<noteq> 0 \<and>
      gcry_md_get_algo_dlen X algo \<noteq> 0 \<and> digest \<noteq> NULL \<and>
      lua_pushlstring_ok X e' (read_bytes X e' digest (unat (gcry_md_get_algo_dlen X algo))) \<longrightarrow>
        res = Return [LString (read_bytes X e' digest (unat (gcry_md_get_algo_dlen X algo)))] \<and>
        length (read_bytes X e' digest (unat (gcry_md_get_algo_dlen X algo))) =
          unat (gcry_md_get_algo_dlen X algo) \<and>
        env L' = e' \<and>
        calls L' = calls L @ [Ev_md_get_algo (hash_h state), Ev_md_is_enabled (hash_h state) algo,
                              Ev_md_get_algo_dlen algo, Ev_md_read (hash_h state) algo]"
    using u by (auto simp: length_read_bytes)
  have mem: "gcry_md_is_enabled X (env L) (hash_h state) algo \<noteq> 0 \<and>
      gcry_md_get_algo_dlen X algo \<noteq> 0 \<and> digest \<noteq> NULL \<and>
      \<not> lua_pushlstring_ok X e' (read_bytes X e' digest (unat (gcry_md_get_algo_dlen X algo))) \<longrightarrow>
        res = Raise MemoryError \<and>
        env L' = e' \<and>
        calls L' = calls L @ [Ev_md_get_algo (hash_h state), Ev_md_is_enabled (hash_h state) algo,
                              Ev_md_get_algo_dlen algo, Ev_md_read (hash_h state) algo]"
    using u by auto
  have nofree: "\<forall>p. Ev_free p \<notin> set (drop (length (calls L)) (calls L')) \<and>
          Ev_md_close p \<notin> set (drop (length (calls L)) (calls L'))"
    using u by (auto split: if_splits)
  have ud: "udata L' = udata L"
    using u by (auto split: if_splits)
  from dflt dis len0 nul ret mem nofree ud show ?thesis
    by blast
qed

text \<open>
  The theorem on the concrete instance, after three bytes were written: a read that
  returns, a read of an algorithm that is not enabled, and a read on the host whose
  strings hold one byte.
\<close>

theorem hash_read_outcomes_witness:
  "fst (lgcrypt_hash_read toy toy_hash_written [LUserdata 0]) = Return [LString [6, 3]] \<and>
   calls (snd (lgcrypt_hash_read toy toy_hash_written [LUserdata 0])) =
     calls toy_hash_written @
       [Ev_md_get_algo 1, Ev_md_is_enabled 1 8, Ev_md_get_algo_dlen 8, Ev_md_read 1 8] \<and>
   fst (lgcrypt_hash_read toy toy_hash_written [LUserdata 0, LNumber 9]) =
     Raise (RuntimeError ''Unable to obtain digest for a disabled algorithm'') \<and>
   fst (lgcrypt_hash_read toy_small_host toy_hash_written [LUserdata 0]) = Raise MemoryError \<and>
   calls (snd (lgcrypt_hash_read toy_small_host toy_hash_written [LUserdata 0])) =
     calls toy_hash_written @
       [Ev_md_get_algo 1, Ev_md_is_enabled 1 8, Ev_md_get_algo_dlen 8, Ev_md_read 1 8]"
proof -
  let ?e' = "env toy_hash_written\<lparr>rs_blocks := [1 \<mapsto> [6, 3]]\<rparr>"
  have chk: "checkHash toy_hash_written (LUserdata 0 # rest) 1 = Inr (0, \<lparr>hash_h = 1\<rparr>)" for rest
    by (simp add: toy_hash_written_eq api_simps)
  have alg8: "(8 :: c_int) = of_int 8" and alg9: "(9 :: c_int) = of_int 9"
    by simp_all
  have one: "(1 :: ptr) \<noteq> NULL"
    by simp
  have ret:
    "fst (lgcrypt_hash_read toy toy_hash_written [LUserdata 0]) = Return [LString [6, 3]] \<and>
     calls (snd (lgcrypt_hash_read toy toy_hash_written [LUserdata 0])) =
       calls toy_hash_written @
         [Ev_md_get_algo 1, Ev_md_is_enabled 1 8, Ev_md_get_algo_dlen 8, Ev_md_read 1 8]"
  proof -
    have opt: "luaL_optinteger toy [LUserdata 0] 2
        (sint (gcry_md_get_algo toy (env toy_hash_written) (hash_h \<lparr>hash_h = 1\<rparr>))) = Inr 8"
      by (simp add: toy_hash_written_eq toy_simps api_simps)
    have rd: "gcry_md_read toy (env toy_hash_written) (hash_h \<lparr>hash_h = 1\<rparr>) 8 = (1, ?e')"
      by (simp add: toy_hash_written_eq toy_simps)
    have en: "gcry_md_is_enabled toy (env toy_hash_written) (hash_h \<lparr>hash_h = 1\<rparr>) 8 \<noteq> 0"
      by (simp add: toy_hash_written_eq toy_simps)
    have dl: "gcry_md_get_algo_dlen toy 8 = 2"
      by (simp add: toy_simps)
    have bs: "read_bytes toy ?e' 1 2 = [6, 3]"
      by (simp add: toy_hash_written_eq toy_simps api_simps eval_nat_numeral)
    have ok: "lua_pushlstring_ok toy ?e' [6, 3]"
      by (simp add: toy_simps)
    from hash_read_outcomes [OF chk opt alg8 rd surjective_pairing] en dl bs ok one
    show ?thesis
      by simp
  qed
  have dis:
    "fst (lgcrypt_hash_read toy toy_hash_written [LUserdata 0, LNumber 9]) =
       Raise (RuntimeError ''Unable to obtain digest for a disabled algorithm'')"
  proof -
    have opt: "luaL_optinteger toy [LUserdata 0, LNumber 9] 2
        (sint (gcry_md_get_algo toy (env toy_hash_written) (hash_h \<lparr>hash_h = 1\<rparr>))) = Inr 9"
      by (simp add: api_simps)
    have en: "gcry_md_is_enabled toy (env toy_hash_written) (hash_h \<lparr>hash_h = 1\<rparr>) 9 = 0"
      by (simp add: toy_hash_written_eq toy_simps)
    from hash_read_outcomes [OF chk opt alg9 surjective_pairing surjective_pairing] en
    show ?thesis
      by simp
  qed
  have mem:
    "fst (lgcrypt_hash_read toy_small_host toy_hash_written [LUserdata 0]) = Raise MemoryError \<and>
     calls (snd (lgcrypt_hash_read toy_small_host toy_hash_written [LUserdata 0])) =
       calls toy_hash_written @
         [Ev_md_get_algo 1, Ev_md_is_enabled 1 8, Ev_md_get_algo_dlen 8, Ev_md_read 1 8]"
  proof -
    have opt: "luaL_optinteger toy_small_host [LUserdata 0] 2
        (sint (gcry_md_get_algo toy_small_host (env toy_hash_written) (hash_h \<lparr>hash_h = 1\<rparr>))) = Inr 8"
      by (simp add: toy_small_host_def toy_hash_written_eq toy_simps api_simps)
    have rd: "gcry_md_read toy_small_host (env toy_hash_written) (hash_h \<lparr>hash_h = 1\<rparr>) 8 = (1, ?e')"
      by (simp add: toy_small_host_def toy_hash_written_eq toy_simps)
    have en: "gcry_md_is_enabled toy_small_host (env toy_hash_written) (hash_h \<lparr>hash_h = 1\<rparr>) 8 \<noteq> 0"
      by (simp add: toy_small_host_def toy_hash_written_eq toy_simps)
    have dl: "gcry_md_get_algo_dlen toy_small_host 8 = 2"
      by (simp add: toy_small_host_def toy_simps)
    have bs: "read_bytes toy_small_host ?e' 1 2 = [6, 3]"
      by (simp add: toy_small_host_def toy_hash_written_eq toy_simps api_simps eval_nat_numeral)
    have no: "\<not> lua_pushlstring_ok toy_small_host ?e' [6, 3]"
      by (simp add: toy_small_host_def toy_simps)
    from hash_read_outcomes [OF chk opt alg8 rd surjective_pairing] en dl bs no one
    show ?thesis
      by simp
  qed
  from ret dis mem show ?thesis
    by blast
qed

text \<open>
  C5 as stated fails. On the host whose strings hold at most one byte a hash handle is
  opened for algorithm 8 and three bytes are written. The algorithm is enabled, its
  digest length is 2 and the provider's digest buffer is not \<open>NULL\<close>, yet
  \<^verbatim>\<open>read\<close> does not return the digest: it raises the host's memory error.
\<close>

theorem hash_read_host_memory_error:
  "fst (lgcrypt_hash_open toy_small_host lua_init [LNumber 8]) = Return [LUserdata 0] \<and>
   fst (lgcrypt_hash_write toy_small_host
          (snd (lgcrypt_hash_open toy_small_host lua_init [LNumber 8]))
          [LUserdata 0, LString [1, 2, 3]]) = Return [] \<and>
   snd (lgcrypt_hash_write toy_small_host
          (snd (lgcrypt_hash_open toy_small_host lua_init [LNumber 8]))
          [LUserdata 0, LString [1, 2, 3]]) = toy_hash_written \<and>
   gcry_md_is_enabled toy_small_host (env toy_hash_written) 1 8 = 1 \<and>
   gcry_md_get_algo_dlen toy_small_host 8 = 2 \<and>
   fst (gcry_md_read toy_small_host (env toy_hash_written) 1 8) = 1 \<and>
   fst (lgcrypt_hash_read toy_small_host toy_hash_written [LUserdata 0]) = Raise MemoryError"
  by (simp add: toy_small_host_def toy_hash_written_eq lgcrypt_hash_open_def lgcrypt_hash_write_def
        lgcrypt_hash_read_def toy_simps api_simps)

section \<open>Running a finalizer twice\<close>

lemma checkCipher_same_udata: "udata L' = udata L \<Longrightarrow> checkCipher L' args n = checkCipher L args n"
  by (auto simp: checkCipher_def split: option.splits lua_value.splits userdata.splits)

lemma checkHash_same_udata: "udata L' = udata L \<Longrightarrow> checkHash L' args n = checkHash L args n"
  by (auto simp: checkHash_def split: option.splits lua_value.splits userdata.splits)

text \<open>
  For every provider: a finalizer run a second time on the same handle makes the
  release calls of the first run again, since neither run changes the handle's fields.
\<close>

theorem finalizer_repeats_release:
  "(checkCipher L args 1 = Inr (r, c) \<longrightarrow>
      calls (snd (lgcrypt_cipher___gc X (snd (lgcrypt_cipher___gc X L args)) args)) =
        calls L @
        ((if cipher_h c \<noteq> NULL then [Ev_cipher_close (cipher_h c)] else []) @
         (if cipher_out c \<noteq> NULL then [Ev_free (cipher_out c)] else [])) @
        ((if cipher_h c \<noteq> NULL then [Ev_cipher_close (cipher_h c)] else []) @
         (if cipher_out c \<noteq> NULL then [Ev_free (cipher_out c)] else []))) \<and>
   (checkHash L args 1 = Inr (r', s) \<longrightarrow>
      calls (snd (lgcrypt_hash___gc X (snd (lgcrypt_hash___gc X L args)) args)) =
        calls L @
        (if hash_h s \<noteq> NULL then [Ev_md_close (hash_h s)] else []) @
        (if hash_h s \<noteq> NULL then [Ev_md_close (hash_h s)] else []))"
proof -
  have a: "checkCipher L args 1 = Inr (r, c) \<longrightarrow>
      calls (snd (lgcrypt_cipher___gc X (snd (lgcrypt_cipher___gc X L args)) args)) =
        calls L @
        ((if cipher_h c \<noteq> NULL then [Ev_cipher_close (cipher_h c)] else []) @
         (if cipher_out c \<noteq> NULL then [Ev_free (cipher_out c)] else [])) @
        ((if cipher_h c \<noteq> NULL then [Ev_cipher_close (cipher_h c)] else []) @
         (if cipher_out c \<noteq> NULL then [Ev_free (cipher_out c)] else []))"
  proof
    assume chk: "checkCipher L args 1 = Inr (r, c)"
    note g1 = cipher_gc_unfold [OF chk, of X]
    have u: "udata (snd (lgcrypt_cipher___gc X L args)) = udata L"
      by (simp add: g1)
    have chk': "checkCipher (snd (lgcrypt_cipher___gc X L args)) args 1 = Inr (r, c)"
      using chk checkCipher_same_udata [OF u] by simp
    note g2 = cipher_gc_unfold [OF chk', of X]
    show "calls (snd (lgcrypt_cipher___gc X (snd (lgcrypt_cipher___gc X L args)) args)) =
        calls L @
        ((if cipher_h c \<noteq> NULL then [Ev_cipher_close (cipher_h c)] else []) @
         (if cipher_out c \<noteq> NULL then [Ev_free (cipher_out c)] else [])) @
        ((if cipher_h c \<noteq> NULL then [Ev_cipher_close (cipher_h c)] else []) @
         (if cipher_out c \<noteq> NULL then [Ev_free (cipher_out c)] else []))"
      unfolding g2 by (simp add: g1)
  qed
  have b: "checkHash L args 1 = Inr (r', s) \<longrightarrow>
      calls (snd (lgcrypt_hash___gc X (snd (lgcrypt_hash___gc X L args)) args)) =
        calls L @
        (if hash_h s \<noteq> NULL then [Ev_md_close (hash_h s)] else []) @
        (if hash_h s \<noteq> NULL then [Ev_md_close (hash_h s)] else [])"
  proof
    assume chk: "checkHash L args 1 = Inr (r', s)"
    note g1 = hash_gc_unfold [OF chk, of X]
    have u: "udata (snd (lgcrypt_hash___gc X L args)) = udata L"
      by (simp add: g1)
    have chk': "checkHash (snd (lgcrypt_hash___gc X L args)) args 1 = Inr (r', s)"
      using chk checkHash_same_udata [OF u] by simp
    note g2 = hash_gc_unfold [OF chk', of X]
    show "calls (snd (lgcrypt_hash___gc X (snd (lgcrypt_hash___gc X L args)) args)) =
        calls L @
        (if hash_h s \<noteq> NULL then [Ev_md_close (hash_h s)] else []) @
        (if hash_h s \<noteq> NULL then [Ev_md_close (hash_h s)] else [])"
      unfolding g2 by (simp add: g1)
  qed
  from a b show ?thesis ..
qed

text \<open>
  C2, at the input where the code departs from it. On the concrete instance a cipher
  handle is opened and its finalizer run: the context is closed, and the native field
  keeps the closed context's address. A second run of the finalizer closes that address
  again. The same happens for a hash handle. The finalizers test the fields and never
  clear them.
\<close>

theorem finalizer_run_twice:
  "fst (lgcrypt_cipher___gc toy toy_cipher_opened [LUserdata 0]) = Return [] \<and>
   calls (snd (lgcrypt_cipher___gc toy toy_cipher_opened [LUserdata 0])) =
     [Ev_cipher_open 7 3 0 1, Ev_cipher_close 1] \<and>
   udata (snd (lgcrypt_cipher___gc toy toy_cipher_opened [LUserdata 0])) =
     [Cipher \<lparr>cipher_h = 1, cipher_out = NULL\<rparr>] \<and>
   calls (snd (lgcrypt_cipher___gc toy
                 (snd (lgcrypt_cipher___gc toy toy_cipher_opened [LUserdata 0])) [LUserdata 0])) =
     [Ev_cipher_open 7 3 0 1, Ev_cipher_close 1, Ev_cipher_close 1] \<and>
   \<not> resource_safe (calls (snd (lgcrypt_cipher___gc toy
                 (snd (lgcrypt_cipher___gc toy toy_cipher_opened [LUserdata 0])) [LUserdata 0]))) \<and>
   calls (snd (lgcrypt_hash___gc toy toy_hash_opened [LUserdata 0])) =
     [Ev_md_open 8 0 0 1, Ev_md_close 1] \<and>
   udata (snd (lgcrypt_hash___gc toy toy_hash_opened [LUserdata 0])) = [Hash \<lparr>hash_h = 1\<rparr>] \<and>
   calls (snd (lgcrypt_hash___gc toy
                 (snd (lgcrypt_hash___gc toy toy_hash_opened [LUserdata 0])) [LUserdata 0])) =
     [Ev_md_open 8 0 0 1, Ev_md_close 1, Ev_md_close 1] \<and>
   \<not> resource_safe (calls (snd (lgcrypt_hash___gc toy
                 (snd (lgcrypt_hash___gc toy toy_hash_opened [LUserdata 0])) [LUserdata 0])))"
  by (simp add: toy_cipher_opened_eq toy_hash_opened_eq lgcrypt_cipher___gc_def
        lgcrypt_hash___gc_def toy_simps api_simps resource_safe_def no_resources_def)

section \<open>Scripts and the handles they hold\<close>

lemma replay_append:
  "replay (xs @ ys) t = (case replay xs t of None \<Rightarrow> None | Some t' \<Rightarrow> replay ys t')"
  by (induction xs arbitrary: t) (auto split: option.splits)























lemma index_cipher:
  "index_userdata (metatable_of (Cipher c)) name =
     (if name = ''__index'' then Some Self
      else if name = ''decrypt'' then Some (Func lgcrypt_cipher_decrypt)
      else if name = ''encrypt'' then Some (Func lgcrypt_cipher_encrypt)
      else if name = ''reset'' then Some (Func lgcrypt_cipher_reset)
      else if name = ''setiv'' then Some (Func lgcrypt_cipher_setiv)
      else if name = ''setkey'' then Some (Func lgcrypt_cipher_setkey)
      else if name = ''__gc'' then Some (Func lgcrypt_cipher___gc)
      else None)"
  by (simp add: index_userdata_def metatable_of_def register_metatable_def lgcrypt_cipher_meta_def)

lemma index_hash:
  "index_userdata (metatable_of (Hash s)) name =
     (if name = ''__index'' then Some Self
      else if name = ''read'' then Some (Func lgcrypt_hash_read)
      else if name = ''write'' then Some (Func lgcrypt_hash_write)
      else if name = ''reset'' then Some (Func lgcrypt_hash_reset)
      else if name = ''setkey'' then Some (Func lgcrypt_hash_setkey)
      else if name = ''__gc'' then Some (Func lgcrypt_hash___gc)
      else None)"
  by (simp add: index_userdata_def metatable_of_def register_metatable_def lgcrypt_hash_meta_def)










lemmas script_simps = run_def call_method_def index_cipher index_hash returned_handles_def
  lgcrypt_cipher_open_def lgcrypt_cipher___gc_def lgcrypt_cipher_setkey_def
  lgcrypt_cipher_setiv_def lgcrypt_cipher_reset_def lgcrypt_cipher_encrypt_def
  lgcrypt_cipher_decrypt_def lgcrypt_hash_open_def lgcrypt_hash___gc_def
  lgcrypt_hash_setkey_def lgcrypt_hash_reset_def lgcrypt_hash_write_def lgcrypt_hash_read_def
  lgcrypt_init_def



text \<open>
  Why the condition above is on the whole script. A provider that meets the contract
  may place a new context at a released address. With such a provider a script opens a
  cipher handle, calls \<^verbatim>\<open>__gc\<close> on it, opens a second one, which receives the same
  address, and calls \<^verbatim>\<open>__gc\<close> on the first again: the stale address in the first
  handle now names the second handle's context, which is closed. The second handle,
  on which \<^verbatim>\<open>__gc\<close> was never called, then passes a closed context to
  \<^verbatim>\<open>setkey\<close>.
\<close>

theorem stale_handle_closes_reused_context:
  "opens_store_handles toy_reusing \<and>
   snd (run toy_reusing (lua_init, [])
     [Call_Cipher [LNumber 7, LNumber 3],
      Call_method 0 ''__gc'' [],
      Call_Cipher [LNumber 7, LNumber 3],
      Call_method 0 ''__gc'' [],
      Call_method 1 ''setkey'' [LString [90]]]) = [1, 0] \<and>
   udata (fst (run toy_reusing (lua_init, [])
     [Call_Cipher [LNumber 7, LNumber 3],
      Call_method 0 ''__gc'' [],
      Call_Cipher [LNumber 7, LNumber 3],
      Call_method 0 ''__gc'' [],
      Call_method 1 ''setkey'' [LString [90]]])) =
     [Cipher \<lparr>cipher_h = 1, cipher_out = NULL\<rparr>, Cipher \<lparr>cipher_h = 1, cipher_out = NULL\<rparr>] \<and>
   calls (fst (run toy_reusing (lua_init, [])
     [Call_Cipher [LNumber 7, LNumber 3],
      Call_method 0 ''__gc'' [],
      Call_Cipher [LNumber 7, LNumber 3],
      Call_method 0 ''__gc'' [],
      Call_method 1 ''setkey'' [LString [90]]])) =
     [Ev_cipher_open 7 3 0 1, Ev_cipher_close 1, Ev_cipher_open 7 3 0 1, Ev_cipher_close 1,
      Ev_cipher_setkey 1 [90]] \<and>
   \<not> resource_safe
     [Ev_cipher_open 7 3 0 1, Ev_cipher_close 1, Ev_cipher_open 7 3 0 1, Ev_cipher_close 1,
      Ev_cipher_setkey 1 [90]]"
proof -
  let ?cs = "[Call_Cipher [LNumber 7, LNumber 3],
      Call_method 0 ''__gc'' [],
      Call_Cipher [LNumber 7, LNumber 3],
      Call_method 0 ''__gc'' [],
      Call_method 1 ''setkey'' [LString [90]]]"
  have c: "opens_store_handles toy_reusing"
    by (simp add: opens_store_handles_def toy_reusing_def toy_def ref_externs_def ref_md_open_def)
  have r: "run toy_reusing (lua_init, []) ?cs =
      (\<lparr>env = ref_init\<lparr>rs_ciphers := Map.empty\<rparr>,
        udata = [Cipher \<lparr>cipher_h = 1, cipher_out = NULL\<rparr>, Cipher \<lparr>cipher_h = 1, cipher_out = NULL\<rparr>],
        calls = [Ev_cipher_open 7 3 0 1, Ev_cipher_close 1, Ev_cipher_open 7 3 0 1, Ev_cipher_close 1,
                 Ev_cipher_setkey 1 [90]]\<rparr>, [1, 0])"
    by (simp add: script_simps toy_reusing_def toy_simps api_simps)
  have u: "\<not> resource_safe
     [Ev_cipher_open 7 3 0 1, Ev_cipher_close 1, Ev_cipher_open 7 3 0 1, Ev_cipher_close 1,
      Ev_cipher_setkey 1 [90]]"
    by (simp add: resource_safe_def no_resources_def on_cipher_def)
  from c r u show ?thesis
    by simp
qed

section \<open>Digests of chunked input\<close>

lemma ref_hash_open:
  "lgcrypt_hash_open (ref_externs P) L [LNumber a] =
     (if rp_dlen P (of_int a) = 0
      then (Raise (RuntimeError (''gcry_md_open() failed with '' @ ref_strerror 5)),
            \<lparr>env = env L, udata = udata L @ [Hash \<lparr>hash_h = NULL\<rparr>],
             calls = calls L @ [Ev_md_open (of_int a) 0 5 NULL]\<rparr>)
      else (Return [LUserdata (length (udata L))],
            \<lparr>env = (env L)\<lparr>rs_next := Suc (rs_next (env L)),
                       rs_mds := (rs_mds (env L))(Suc (rs_next (env L)) \<mapsto>
                         \<lparr>md_algo = of_int a, md_flags = 0, md_key = [], md_data = []\<rparr>)\<rparr>,
             udata = udata L @ [Hash \<lparr>hash_h = Suc (rs_next (env L))\<rparr>],
             calls = calls L @ [Ev_md_open (of_int a) 0 0 (Suc (rs_next (env L)))]\<rparr>))"
  by (simp add: lgcrypt_hash_open_def ref_externs_def ref_md_open_def api_simps)

lemma ref_hash_write:
  assumes "r < length (udata M)" "udata M ! r = Hash \<lparr>hash_h = h\<rparr>" "rs_mds (env M) h = Some ctx"
  shows "udata (snd (lgcrypt_hash_write (ref_externs P) M [LUserdata r, LString c])) = udata M \<and>
         rs_mds (env (snd (lgcrypt_hash_write (ref_externs P) M [LUserdata r, LString c]))) h =
           Some (ctx\<lparr>md_data := md_data ctx @ c\<rparr>)"
  using assms
  by (simp add: lgcrypt_hash_write_def ref_externs_def ref_md_write_def api_simps)

lemma ref_hash_feed:
  "r < length (udata M) \<Longrightarrow> udata M ! r = Hash \<lparr>hash_h = h\<rparr> \<Longrightarrow>
   rs_mds (env M) h = Some ctx \<Longrightarrow>
     udata (hash_feed (ref_externs P) M r chunks) = udata M \<and>
     rs_mds (env (hash_feed (ref_externs P) M r chunks)) h =
       Some (ctx\<lparr>md_data := md_data ctx @ concat chunks\<rparr>)"
proof (induction chunks arbitrary: M ctx)
  case Nil
  then show ?case
    by (simp add: hash_feed_def)
next
  case (Cons c chunks)
  let ?M1 = "snd (lgcrypt_hash_write (ref_externs P) M [LUserdata r, LString c])"
  from ref_hash_write [OF Cons.prems, of P c]
  have u: "udata ?M1 = udata M"
    and m: "rs_mds (env ?M1) h = Some (ctx\<lparr>md_data := md_data ctx @ c\<rparr>)"
    by simp_all
  from Cons.prems u have r1: "r < length (udata ?M1)" and h1: "udata ?M1 ! r = Hash \<lparr>hash_h = h\<rparr>"
    by simp_all
  from Cons.IH [OF r1 h1 m] u
  show ?case
    by (simp add: hash_feed_def)
qed

lemma ref_hash_read:
  assumes "r < length (udata M)" "udata M ! r = Hash \<lparr>hash_h = h\<rparr>"
    "rs_mds (env M) h = Some ctx" "h \<noteq> NULL"
  shows "fst (lgcrypt_hash_read (ref_externs P) M [LUserdata r]) =
     (if rp_dlen P (md_algo ctx) = 0 then Raise (RuntimeError ''Invalid digest length detected'')
      else if unat (rp_dlen P (md_algo ctx)) \<le> rp_lua_limit P
      then Return [LString (map (\<lambda>i. if i < length (rp_digest P ctx) then rp_digest P ctx ! i else 0)
                             [0..<unat (rp_dlen P (md_algo ctx))])]
      else Raise MemoryError)"
  using assms
  by (simp add: lgcrypt_hash_read_def ref_externs_def ref_md_get_algo_def ref_md_is_enabled_def
        ref_md_read_def ref_peek_def api_simps unat_eq_0)

lemma ref_hash_session:
  "hash_session (ref_externs P) L a chunks =
     (if rp_dlen P (of_int a) = 0
      then Raise (RuntimeError (''gcry_md_open() failed with '' @ ref_strerror 5))
      else if unat (rp_dlen P (of_int a)) \<le> rp_lua_limit P
      then Return [LString
             (map (\<lambda>i. if i < length (rp_digest P
                              \<lparr>md_algo = of_int a, md_flags = 0, md_key = [], md_data = concat chunks\<rparr>)
                        then rp_digest P
                              \<lparr>md_algo = of_int a, md_flags = 0, md_key = [], md_data = concat chunks\<rparr> ! i
                        else 0)
                  [0..<unat (rp_dlen P (of_int a))])]
      else Raise MemoryError)"
proof (cases "rp_dlen P (of_int a) = 0")
  case True
  then show ?thesis
    by (simp add: hash_session_def ref_hash_open)
next
  case False
  let ?h = "Suc (rs_next (env L))"
  let ?ctx = "\<lparr>md_algo = of_int a, md_flags = 0, md_key = [], md_data = []\<rparr> :: md_ctx"
  let ?L1 = "snd (lgcrypt_hash_open (ref_externs P) L [LNumber a])"
  let ?r = "length (udata L)"
  have r: "?r < length (udata ?L1)" and u: "udata ?L1 ! ?r = Hash \<lparr>hash_h = ?h\<rparr>"
    and m: "rs_mds (env ?L1) ?h = Some ?ctx"
    using False by (simp_all add: ref_hash_open)
  let ?M = "hash_feed (ref_externs P) ?L1 ?r chunks"
  from ref_hash_feed [OF r u m, of P chunks]
  have u': "udata ?M = udata ?L1"
    and m': "rs_mds (env ?M) ?h = Some (?ctx\<lparr>md_data := concat chunks\<rparr>)"
    by simp_all
  from r u u' have r'': "?r < length (udata ?M)" and u'': "udata ?M ! ?r = Hash \<lparr>hash_h = ?h\<rparr>"
    by simp_all
  have "hash_session (ref_externs P) L a chunks =
      fst (lgcrypt_hash_read (ref_externs P) ?M [LUserdata ?r])"
    using False by (simp add: hash_session_def ref_hash_open returned_handles_def)
  also note ref_hash_read [OF r'' u'' m', of P]
  finally show ?thesis
    using False by simp
qed

text \<open>
  C8, on the reference provider, for every digest function and table of digest lengths.
  Two sessions that open a hash handle for the same algorithm, in any two states, and
  write chunk lists with the same concatenation, end with the same result of
  \<^verbatim>\<open>read\<close>; when the algorithm is known and the host builds the string, that result
  is a string of the algorithm's digest length.
\<close>

theorem digest_independent_of_chunking:
  assumes "concat xs = concat ys"
  shows "hash_session (ref_externs P) L a xs = hash_session (ref_externs P) L' a ys \<and>
         (rp_dlen P (of_int a) \<noteq> 0 \<and> unat (rp_dlen P (of_int a)) \<le> rp_lua_limit P \<longrightarrow>
            (\<exists>s. hash_session (ref_externs P) L a xs = Return [LString s] \<and>
                 length s = unat (rp_dlen P (of_int a))))"
  using assms by (simp add: ref_hash_session)

text \<open>The theorem for the two ways of splitting three bytes, on the concrete instance.\<close>

theorem digest_independent_of_chunking_witness:
  "concat [[1, 2], [3 :: byte]] = concat [[1], [2, 3]] \<and>
   hash_session toy lua_init 8 [[1, 2], [3]] = Return [LString [6, 3]] \<and>
   hash_session toy toy_cipher_ready 8 [[1], [2, 3]] = Return [LString [6, 3]]"
proof -
  have c: "concat [[1, 2], [3 :: byte]] = concat [[1], [2, 3]]"
    by simp
  have v: "hash_session toy lua_init 8 [[1, 2], [3]] = Return [LString [6, 3]]"
    by (simp add: toy_def ref_hash_session toy_params_def) (simp add: numeral_2_eq_2)
  from digest_independent_of_chunking [OF c, of toy_params lua_init 8 toy_cipher_ready] c v
  show ?thesis
    by (simp add: toy_def)
qed

section \<open>Further properties of the finalizers and the forwarding methods\<close>

text \<open>
  A finalizer that finds its handle's fields \<open>NULL\<close> (as after a failed open) returns
  without a provider call and leaves the state as it was.
\<close>

theorem finalizer_noop_when_absent:
  "(checkCipher L args 1 = Inr (r, c) \<and> cipher_h c = NULL \<and> cipher_out c = NULL \<longrightarrow>
      lgcrypt_cipher___gc X L args = (Return [], L)) \<and>
   (checkHash L args 1 = Inr (r', s) \<and> hash_h s = NULL \<longrightarrow>
      lgcrypt_hash___gc X L args = (Return [], L))"
proof -
  have a: "checkCipher L args 1 = Inr (r, c) \<and> cipher_h c = NULL \<and> cipher_out c = NULL \<longrightarrow>
      lgcrypt_cipher___gc X L args = (Return [], L)"
    using cipher_gc_unfold [of L args r c X] by auto
  have b: "checkHash L args 1 = Inr (r', s) \<and> hash_h s = NULL \<longrightarrow>
      lgcrypt_hash___gc X L args = (Return [], L)"
    using hash_gc_unfold [of L args r' s X] by auto
  from a b show ?thesis ..
qed

theorem finalizer_noop_when_absent_witness:
  "checkCipher (snd (lgcrypt_cipher_open toy lua_init [LNumber 1, LNumber 3])) [LUserdata 0] 1 =
     Inr (0, \<lparr>cipher_h = NULL, cipher_out = NULL\<rparr>) \<and>
   lgcrypt_cipher___gc toy (snd (lgcrypt_cipher_open toy lua_init [LNumber 1, LNumber 3]))
     [LUserdata 0] = (Return [], snd (lgcrypt_cipher_open toy lua_init [LNumber 1, LNumber 3]))"
proof -
  have chk: "checkCipher (snd (lgcrypt_cipher_open toy lua_init [LNumber 1, LNumber 3]))
      [LUserdata 0] 1 = Inr (0, \<lparr>cipher_h = NULL, cipher_out = NULL\<rparr>)"
    by (simp add: lgcrypt_cipher_open_def toy_simps api_simps)
  from finalizer_noop_when_absent [of "snd (lgcrypt_cipher_open toy lua_init [LNumber 1, LNumber 3])"
      "[LUserdata 0]" 0 "\<lparr>cipher_h = NULL, cipher_out = NULL\<rparr>" toy] chk
  show ?thesis
    by simp
qed

text \<open>
  A cipher handle that is opened and finalized at once: the finalizer closes the context
  the open returned, the two provider calls are the open and the close, and the
  resources that are live afterwards are those that were live before.
\<close>

theorem open_then_finalize:
  assumes opn: "lgcrypt_cipher_open X L args = (Return [LUserdata r], L1)"
    and h: "udata L1 ! r = Cipher c"
    and nz: "cipher_h c \<noteq> NULL"
    and t: "replay (calls L) no_resources = Some t"
    and fresh: "cipher_h c \<notin> open_ciphers t"
  shows "fst (lgcrypt_cipher___gc X L1 [LUserdata r]) = Return [] \<and>
         (\<exists>algo mode. calls (snd (lgcrypt_cipher___gc X L1 [LUserdata r])) =
            calls L @ [Ev_cipher_open algo mode 0 (cipher_h c), Ev_cipher_close (cipher_h c)]) \<and>
         replay (calls (snd (lgcrypt_cipher___gc X L1 [LUserdata r]))) no_resources = Some t"
proof -
  from opn obtain algo mode where a1: "luaL_checkint X args 1 = Inr algo"
    and a2: "luaL_checkint X args 2 = Inr mode" and mem: "lua_newuserdata_ok X (env L)"
    by (cases "luaL_checkint X args 1"; cases "luaL_checkint X args 2";
        cases "lua_newuserdata_ok X (env L)")
      (auto simp: lgcrypt_cipher_open_def lgcrypt_cipher_new_def simp del: One_nat_def)
  obtain err hdl e' where g: "gcry_cipher_open X (env L) NULL algo mode 0 = (err, hdl, e')"
    by (cases "gcry_cipher_open X (env L) NULL algo mode 0")
  note eq = cipher_open_unfold [OF a1 a2 mem g, unfolded opn]
  from eq have err: "err = 0" and r: "r = length (udata L)"
    and L1: "L1 = \<lparr>env = e', udata = udata L @ [Cipher \<lparr>cipher_h = hdl, cipher_out = NULL\<rparr>],
       calls = calls L @ [Ev_cipher_open algo mode err hdl]\<rparr>"
    by (auto split: if_splits)
  from L1 r h have c: "c = \<lparr>cipher_h = hdl, cipher_out = NULL\<rparr>"
    by simp
  have chk: "checkCipher L1 [LUserdata r] 1 = Inr (r, c)"
    using L1 r c by (simp add: checkCipher_def stack_at_def)
  have same: "t\<lparr>open_ciphers := insert hdl (open_ciphers t) - {hdl}\<rparr> = t"
    using fresh c by simp
  from cipher_gc_unfold [OF chk, of X] nz c err L1 t same
  show ?thesis
    by (auto simp: replay_append)
qed


theorem open_then_finalize_witness:
  "lgcrypt_cipher_open toy lua_init [LNumber 7, LNumber 3] = (Return [LUserdata 0], toy_cipher_opened) \<and>
   fst (lgcrypt_cipher___gc toy toy_cipher_opened [LUserdata 0]) = Return [] \<and>
   calls (snd (lgcrypt_cipher___gc toy toy_cipher_opened [LUserdata 0])) =
     [Ev_cipher_open 7 3 0 1, Ev_cipher_close 1] \<and>
   replay (calls (snd (lgcrypt_cipher___gc toy toy_cipher_opened [LUserdata 0]))) no_resources =
     Some no_resources"
proof -
  have opn: "lgcrypt_cipher_open toy lua_init [LNumber 7, LNumber 3] =
      (Return [LUserdata 0], toy_cipher_opened)"
    by (simp add: toy_cipher_opened_eq lgcrypt_cipher_open_def toy_simps api_simps)
  have h: "udata toy_cipher_opened ! 0 = Cipher \<lparr>cipher_h = 1, cipher_out = NULL\<rparr>"
    by (simp add: toy_cipher_opened_eq)
  have nz: "cipher_h \<lparr>cipher_h = 1, cipher_out = NULL\<rparr> \<noteq> NULL"
    by simp
  have t: "replay (calls lua_init) no_resources = Some no_resources"
    by (simp add: lua_init_def)
  have fresh: "cipher_h \<lparr>cipher_h = 1, cipher_out = NULL\<rparr> \<notin> open_ciphers no_resources"
    by (simp add: no_resources_def)
  have cl: "calls (snd (lgcrypt_cipher___gc toy toy_cipher_opened [LUserdata 0])) =
      [Ev_cipher_open 7 3 0 1, Ev_cipher_close 1]"
    by (simp add: toy_cipher_opened_eq lgcrypt_cipher___gc_def toy_simps api_simps)
  from open_then_finalize [OF opn h nz t fresh] opn cl
  show ?thesis
    by simp
qed

text \<open>
  \<^verbatim>\<open>write\<close> and \<^verbatim>\<open>reset\<close> of a hash handle whose arguments pass the checks make
  their one provider call and return no value; they raise nothing of their own.
\<close>

theorem hash_write_reset_cannot_fail:
  "(checkHash L args 1 = Inr (r, s) \<and> luaL_checklstring X args 2 = Inr buf \<longrightarrow>
      lgcrypt_hash_write X L args =
        (Return [], L\<lparr>env := gcry_md_write X (env L) (hash_h s) buf,
                      calls := calls L @ [Ev_md_write (hash_h s) buf]\<rparr>)) \<and>
   (checkHash L args 1 = Inr (r, s) \<longrightarrow>
      lgcrypt_hash_reset X L args =
        (Return [], L\<lparr>env := gcry_md_reset X (env L) (hash_h s),
                      calls := calls L @ [Ev_md_reset (hash_h s)]\<rparr>))"
  by (simp add: lgcrypt_hash_write_def lgcrypt_hash_reset_def record_call_def)

theorem hash_write_reset_cannot_fail_witness:
  "checkHash toy_hash_opened [LUserdata 0, LString [1, 2, 3]] 1 = Inr (0, \<lparr>hash_h = 1\<rparr>) \<and>
   lgcrypt_hash_write toy toy_hash_opened [LUserdata 0, LString [1, 2, 3]] =
     (Return [], toy_hash_written)"
proof -
  have chk: "checkHash toy_hash_opened [LUserdata 0, LString [1, 2, 3]] 1 = Inr (0, \<lparr>hash_h = 1\<rparr>)"
    by (simp add: toy_hash_opened_eq api_simps)
  have str: "luaL_checklstring toy [LUserdata 0, LString [1, 2, 3]] 2 = Inr [1, 2, 3]"
    by (simp add: api_simps)
  from hash_write_reset_cannot_fail [of toy_hash_opened "[LUserdata 0, LString [1, 2, 3]]" 0
      "\<lparr>hash_h = 1\<rparr>" toy "[1, 2, 3]"] chk str
  show ?thesis
    by (simp add: toy_hash_written_def)
qed

text \<open>
  \<^verbatim>\<open>setkey\<close>, \<^verbatim>\<open>setiv\<close> and \<^verbatim>\<open>reset\<close> of a cipher handle pass the handle's context
  and the given bytes to the provider's function of the same name, and raise the
  provider's error exactly when it reports one.
\<close>

theorem cipher_forwarders:
  assumes chk: "checkCipher L args 1 = Inr (r, c)"
    and str: "luaL_checklstring X args 2 = Inr bs"
    and key: "gcry_cipher_setkey X (env L) (cipher_h c) bs = (kerr, ke)"
    and iv: "gcry_cipher_setiv X (env L) (cipher_h c) bs = (ierr, ie)"
    and rst: "gcry_cipher_reset X (env L) (cipher_h c) = (rerr, re)"
  shows
    "lgcrypt_cipher_setkey X L args =
       (if kerr \<noteq> GPG_ERR_NO_ERROR
        then Raise (RuntimeError (''gcry_cipher_setkey() failed with '' @ gcry_strerror X kerr))
        else Return [],
        L\<lparr>env := ke, calls := calls L @ [Ev_cipher_setkey (cipher_h c) bs]\<rparr>) \<and>
     lgcrypt_cipher_setiv X L args =
       (if ierr \<noteq> GPG_ERR_NO_ERROR
        then Raise (RuntimeError (''gcry_cipher_setiv() failed with '' @ gcry_strerror X ierr))
        else Return [],
        L\<lparr>env := ie, calls := calls L @ [Ev_cipher_setiv (cipher_h c) bs]\<rparr>) \<and>
     lgcrypt_cipher_reset X L args =
       (if rerr \<noteq> GPG_ERR_NO_ERROR
        then Raise (RuntimeError (''gcry_cipher_reset() failed with '' @ gcry_strerror X rerr))
        else Return [],
        L\<lparr>env := re, calls := calls L @ [Ev_cipher_reset (cipher_h c)]\<rparr>)"
  using assms
  by (simp add: lgcrypt_cipher_setkey_def lgcrypt_cipher_setiv_def lgcrypt_cipher_reset_def
        record_call_def Let_def)

theorem cipher_forwarders_witness:
  "fst (lgcrypt_cipher_setkey toy toy_cipher_opened [LUserdata 0, LString []]) =
     Raise (RuntimeError ''gcry_cipher_setkey() failed with Invalid key length'') \<and>
   fst (lgcrypt_cipher_setiv toy toy_cipher_opened [LUserdata 0, LString []]) = Return [] \<and>
   fst (lgcrypt_cipher_reset toy toy_cipher_opened [LUserdata 0, LString []]) = Return []"
proof -
  let ?args = "[LUserdata 0, LString []]"
  let ?e = "env toy_cipher_opened"
  have chk: "checkCipher toy_cipher_opened ?args 1 = Inr (0, \<lparr>cipher_h = 1, cipher_out = NULL\<rparr>)"
    by (simp add: toy_cipher_opened_eq api_simps)
  have str: "luaL_checklstring toy ?args 2 = Inr []"
    by (simp add: api_simps)
  have key: "gcry_cipher_setkey toy ?e (cipher_h \<lparr>cipher_h = 1, cipher_out = NULL\<rparr>) [] = (44, ?e)"
    by (simp add: toy_cipher_opened_eq toy_simps)
  have iv: "gcry_cipher_setiv toy ?e (cipher_h \<lparr>cipher_h = 1, cipher_out = NULL\<rparr>) [] =
      (0, snd (gcry_cipher_setiv toy ?e 1 []))"
    by (simp add: toy_cipher_opened_eq toy_simps)
  have rst: "gcry_cipher_reset toy ?e (cipher_h \<lparr>cipher_h = 1, cipher_out = NULL\<rparr>) =
      (0, snd (gcry_cipher_reset toy ?e 1))"
    by (simp add: toy_cipher_opened_eq toy_simps)
  have msg: "gcry_strerror toy 44 = ''Invalid key length''"
    by (simp add: toy_simps)
  from cipher_forwarders [OF chk str key iv rst] msg
  show ?thesis
    by simp
qed

end
